theory Spec2Isabelle
  imports Complex_Main
begin

section \<open>Floating-point values\<close>

text \<open>
  The notebook computes on torch tensors of the default type, float32. A tensor entry is
  modelled as a value of \<open>fl\<close>: a finite number, one of the two infinities, or NaN. The
  special values follow IEEE 754, which is what decides the behaviour of the look-ahead
  mask (a product with \<open>float('-inf')\<close>). A sum, a product or an exponential of finite
  values overflows to an infinity as in float32, where a result rounds to an infinity
  once its magnitude reaches \<open>2^128 - 2^103\<close>, half a unit in the last place above the
  largest finite number. Below that threshold the result is kept as the exact real:
  rounding is not modelled, and neither are the sign of zero and the overflow of a
  quotient of finite values.
\<close>

datatype fl = Fin real | PInf | NInf | NaN

definition f32_overflow :: real where
  "f32_overflow = 2 ^ 128 - 2 ^ 103"

definition overflow :: "real \<Rightarrow> fl" where
  "overflow r =
     (if f32_overflow \<le> r then PInf else if r \<le> - f32_overflow then NInf else Fin r)"

text \<open>The values a float32 tensor can hold: a finite entry lies below the threshold.\<close>

fun is_float :: "fl \<Rightarrow> bool" where
  "is_float (Fin a) = (\<bar>a\<bar> < f32_overflow)"
| "is_float PInf = True"
| "is_float NInf = True"
| "is_float NaN = True"


fun is_fin :: "fl \<Rightarrow> bool" where
  "is_fin (Fin a) = True"
| "is_fin PInf = False"
| "is_fin NInf = False"
| "is_fin NaN = False"

text \<open>The infinity with the sign of \<open>a\<close>; \<open>0 * inf\<close> is NaN.\<close>

definition inf_signed :: "real \<Rightarrow> fl" where
  "inf_signed a = (if a = 0 then NaN else if 0 < a then PInf else NInf)"

fun fneg :: "fl \<Rightarrow> fl" where
  "fneg (Fin a) = Fin (- a)"
| "fneg PInf = NInf"
| "fneg NInf = PInf"
| "fneg NaN = NaN"

fun fadd :: "fl \<Rightarrow> fl \<Rightarrow> fl" where
  "fadd (Fin a) (Fin b) = overflow (a + b)"
| "fadd (Fin a) PInf = PInf"
| "fadd (Fin a) NInf = NInf"
| "fadd PInf (Fin b) = PInf"
| "fadd PInf PInf = PInf"
| "fadd PInf NInf = NaN"
| "fadd NInf (Fin b) = NInf"
| "fadd NInf PInf = NaN"
| "fadd NInf NInf = NInf"
| "fadd NaN y = NaN"
| "fadd (Fin a) NaN = NaN"
| "fadd PInf NaN = NaN"
| "fadd NInf NaN = NaN"

definition fsub :: "fl \<Rightarrow> fl \<Rightarrow> fl" where
  "fsub x y = fadd x (fneg y)"

fun fmul :: "fl \<Rightarrow> fl \<Rightarrow> fl" where
  "fmul (Fin a) (Fin b) = overflow (a * b)"
| "fmul (Fin a) PInf = inf_signed a"
| "fmul (Fin a) NInf = inf_signed (- a)"
| "fmul PInf (Fin b) = inf_signed b"
| "fmul PInf PInf = PInf"
| "fmul PInf NInf = NInf"
| "fmul NInf (Fin b) = inf_signed (- b)"
| "fmul NInf PInf = NInf"
| "fmul NInf NInf = PInf"
| "fmul NaN y = NaN"
| "fmul (Fin a) NaN = NaN"
| "fmul PInf NaN = NaN"
| "fmul NInf NaN = NaN"

text \<open>Division; a zero divisor is the positive zero.\<close>

fun fdiv :: "fl \<Rightarrow> fl \<Rightarrow> fl" where
  "fdiv (Fin a) (Fin b) = (if b = 0 then inf_signed a else Fin (a / b))"
| "fdiv (Fin a) PInf = Fin 0"
| "fdiv (Fin a) NInf = Fin 0"
| "fdiv PInf (Fin b) = (if 0 \<le> b then PInf else NInf)"
| "fdiv PInf PInf = NaN"
| "fdiv PInf NInf = NaN"
| "fdiv NInf (Fin b) = (if 0 \<le> b then NInf else PInf)"
| "fdiv NInf PInf = NaN"
| "fdiv NInf NInf = NaN"
| "fdiv NaN y = NaN"
| "fdiv (Fin a) NaN = NaN"
| "fdiv PInf NaN = NaN"
| "fdiv NInf NaN = NaN"

fun fexp :: "fl \<Rightarrow> fl" where
  "fexp (Fin a) = overflow (exp a)"
| "fexp PInf = PInf"
| "fexp NInf = Fin 0"
| "fexp NaN = NaN"

fun fsqrt :: "fl \<Rightarrow> fl" where
  "fsqrt (Fin a) = (if a < 0 then NaN else Fin (sqrt a))"
| "fsqrt PInf = PInf"
| "fsqrt NInf = NaN"
| "fsqrt NaN = NaN"

fun fsin :: "fl \<Rightarrow> fl" where
  "fsin (Fin a) = Fin (sin a)"
| "fsin PInf = NaN"
| "fsin NInf = NaN"
| "fsin NaN = NaN"

fun fcos :: "fl \<Rightarrow> fl" where
  "fcos (Fin a) = Fin (cos a)"
| "fcos PInf = NaN"
| "fcos NInf = NaN"
| "fcos NaN = NaN"

text \<open>The maximum of torch reductions: NaN wins.\<close>

fun fmax :: "fl \<Rightarrow> fl \<Rightarrow> fl" where
  "fmax (Fin a) (Fin b) = Fin (max a b)"
| "fmax (Fin a) PInf = PInf"
| "fmax (Fin a) NInf = Fin a"
| "fmax PInf (Fin b) = PInf"
| "fmax PInf PInf = PInf"
| "fmax PInf NInf = PInf"
| "fmax NInf (Fin b) = Fin b"
| "fmax NInf PInf = PInf"
| "fmax NInf NInf = NInf"
| "fmax NaN y = NaN"
| "fmax (Fin a) NaN = NaN"
| "fmax PInf NaN = NaN"
| "fmax NInf NaN = NaN"

primrec fsum :: "fl list \<Rightarrow> fl" where
  "fsum [] = Fin 0"
| "fsum (x # xs) = fadd x (fsum xs)"

section \<open>Errors and tensors\<close>

text \<open>
  The exceptions the notebook can raise: the \<open>assert\<close> of a constructor, Python's
  integer division by zero, torch's RuntimeError on a shape mismatch, and torch's
  IndexError on an embedding index out of range.
\<close>

datatype error = AssertionError | ZeroDivisionError | RuntimeError | IndexError

definition ebind :: "error + 'a \<Rightarrow> ('a \<Rightarrow> error + 'b) \<Rightarrow> error + 'b" where
  "ebind m f = (case m of Inl e \<Rightarrow> Inl e | Inr v \<Rightarrow> f v)"

fun emap :: "('a \<Rightarrow> error + 'b) \<Rightarrow> 'a list \<Rightarrow> error + 'b list" where
  "emap f [] = Inr []"
| "emap f (x # xs) =
     (case f x of Inl e \<Rightarrow> Inl e
      | Inr y \<Rightarrow> (case emap f xs of Inl e \<Rightarrow> Inl e | Inr ys \<Rightarrow> Inr (y # ys)))"

text \<open>
  Tensors are nested lists, outermost axis first: a vector of features, a matrix
  (sequence position by feature) and a batch of matrices. A nested list cannot carry the
  inner extents of an axis of extent 0, so the theorems below are about tensors whose
  extents are positive where that matters, as the shapes of the specification are.
  The layers are modelled on batches, which is how the model calls them; a call on a
  single matrix, as in the notebook's first unit test, is the call on the batch of that
  one matrix.
\<close>

type_synonym vec = "fl list"
type_synonym mat = "fl list list"
type_synonym tensor3 = "fl list list list"

definition ncols :: "'a list list \<Rightarrow> nat" where
  "ncols M = (case M of [] \<Rightarrow> 0 | r # _ \<Rightarrow> length r)"

definition last_dim :: "'a list list list \<Rightarrow> nat" where
  "last_dim X = (case X of [] \<Rightarrow> 0 | M # _ \<Rightarrow> ncols M)"

definition is_mat :: "nat \<Rightarrow> nat \<Rightarrow> 'a list list \<Rightarrow> bool" where
  "is_mat n d M = (length M = n \<and> list_all (\<lambda>r. length r = d) M)"

definition is_tensor3 :: "nat \<Rightarrow> nat \<Rightarrow> nat \<Rightarrow> 'a list list list \<Rightarrow> bool" where
  "is_tensor3 b n d X = (length X = b \<and> list_all (is_mat n d) X)"


definition float_t :: "tensor3 \<Rightarrow> bool" where
  "float_t X = list_all (list_all (list_all is_float)) X"

text \<open>
  Broadcasting along one axis, as torch does it for element-wise operations and for the
  batch axes of \<open>matmul\<close>: equal extents pair up, an extent of 1 is repeated, anything
  else is a RuntimeError.
\<close>

definition bc_zip :: "('a \<Rightarrow> 'b \<Rightarrow> error + 'c) \<Rightarrow> 'a list \<Rightarrow> 'b list \<Rightarrow> error + 'c list" where
  "bc_zip f xs ys =
     (if length xs = length ys then emap (\<lambda>(x, y). f x y) (zip xs ys)
      else if length xs = 1 then emap (\<lambda>y. f (hd xs) y) ys
      else if length ys = 1 then emap (\<lambda>x. f x (hd ys)) xs
      else Inl RuntimeError)"

subsection \<open>torch.transpose and torch.matmul\<close>

definition column :: "'a list list \<Rightarrow> nat \<Rightarrow> 'a list" where
  "column M j = map (\<lambda>r. r ! j) M"

definition transpose_m :: "'a list list \<Rightarrow> 'a list list" where
  "transpose_m M = map (column M) [0..<ncols M]"

definition dot :: "vec \<Rightarrow> vec \<Rightarrow> fl" where
  "dot u v = fsum (map2 fmul u v)"

text \<open>
  The product of two matrices: entry (i, j) is the dot product of row i of \<open>A\<close> with
  column j of \<open>B\<close>. The inner extents must agree.
\<close>

definition mm :: "mat \<Rightarrow> mat \<Rightarrow> mat" where
  "mm A B = map (\<lambda>r. map (dot r) (transpose_m B)) A"

definition matmul :: "mat \<Rightarrow> mat \<Rightarrow> error + mat" where
  "matmul A B =
     (if list_all (\<lambda>r. length r = length B) A then Inr (mm A B) else Inl RuntimeError)"

text \<open>A batch times a batch (the batch axis broadcasts), and a batch times a matrix.\<close>

definition matmul_bb :: "tensor3 \<Rightarrow> tensor3 \<Rightarrow> error + tensor3" where
  "matmul_bb X Y = bc_zip matmul X Y"

definition matmul_bw :: "tensor3 \<Rightarrow> mat \<Rightarrow> error + tensor3" where
  "matmul_bw X W = emap (\<lambda>M. matmul M W) X"

subsection \<open>F.softmax over the last axis\<close>

text \<open>
  Softmax of one row as torch computes it: subtract the maximum of the row, exponentiate,
  divide by the sum.
\<close>

definition softmax_v :: "vec \<Rightarrow> vec" where
  "softmax_v xs =
     (let m = foldr fmax xs NInf;
          es = map (\<lambda>x. fexp (fsub x m)) xs;
          s = fsum es
      in map (\<lambda>e. fdiv e s) es)"

definition softmax :: "tensor3 \<Rightarrow> tensor3" where
  "softmax X = map (map softmax_v) X"

section \<open>Scaled dot-product attention\<close>

text \<open>
  \<open>torch.full(size, float('-inf'))\<close>, \<open>torch.triu(_, diagonal=1)\<close> on a matrix (entries
  with column index at least row index + 1 are kept, the others become 0), and the
  assignment \<open>look_ahead_mask[look_ahead_mask == 0] = 1\<close>.
\<close>

definition full :: "nat \<Rightarrow> nat \<Rightarrow> fl \<Rightarrow> mat" where
  "full n d v = replicate n (replicate d v)"

definition triu1 :: "mat \<Rightarrow> mat" where
  "triu1 M = map (\<lambda>(i, r). map (\<lambda>(c, v). if i + 1 \<le> c then v else Fin 0) (enumerate 0 r))
               (enumerate 0 M)"

definition zeros_to_one :: "mat \<Rightarrow> mat" where
  "zeros_to_one M = map (map (\<lambda>v. if v = Fin 0 then Fin 1 else v)) M"

definition look_ahead_mask :: "nat \<Rightarrow> nat \<Rightarrow> mat" where
  "look_ahead_mask n d = zeros_to_one (triu1 (full n d NInf))"

definition mul_m :: "mat \<Rightarrow> mat \<Rightarrow> mat" where
  "mul_m A B = map2 (map2 fmul) A B"

text \<open>
  The mask branch of \<open>ScaledDotProductAttention.forward\<close>: the mask has the shape of
  the weighted values and multiplies them.
\<close>

definition apply_mask :: "tensor3 \<Rightarrow> tensor3" where
  "apply_mask weighted_values =
     map (\<lambda>M. mul_m M (look_ahead_mask (length M) (ncols M))) weighted_values"

definition div_scalar :: "tensor3 \<Rightarrow> fl \<Rightarrow> tensor3" where
  "div_scalar X c = map (map (map (\<lambda>v. fdiv v c))) X"

text \<open>The attention weights: the local variable \<open>weights\<close> of the forward pass.\<close>

definition attention_weights :: "tensor3 \<Rightarrow> tensor3 \<Rightarrow> error + tensor3" where
  "attention_weights Q K =
     (let K_transpose = map transpose_m K in
      case matmul_bb Q K_transpose of
        Inl e \<Rightarrow> Inl e
      | Inr dot_products \<Rightarrow>
          (let d_k = last_dim K;
               scaled_dot_products = div_scalar dot_products (Fin (sqrt (real d_k)))
           in Inr (softmax scaled_dot_products)))"

definition ScaledDotProductAttention_forward ::
    "bool \<Rightarrow> tensor3 \<Rightarrow> tensor3 \<Rightarrow> tensor3 \<Rightarrow> error + tensor3" where
  "ScaledDotProductAttention_forward use_mask Q K V =
     (case attention_weights Q K of
        Inl e \<Rightarrow> Inl e
      | Inr weights \<Rightarrow>
          (case matmul_bb weights V of
             Inl e \<Rightarrow> Inl e
           | Inr weighted_values \<Rightarrow>
               Inr (if use_mask then apply_mask weighted_values else weighted_values)))"

section \<open>Attention and multi-head attention\<close>

text \<open>
  \<open>torch.randn(r, c)\<close>: the matrix of the \<open>k\<close>-th draw, read from the values \<open>rng\<close> the
  generator yields. A negative extent is a RuntimeError.
\<close>

definition randn :: "(nat \<times> nat \<times> nat \<Rightarrow> real) \<Rightarrow> nat \<Rightarrow> int \<Rightarrow> int \<Rightarrow> error + mat" where
  "randn rng k r c =
     (if r < 0 \<or> c < 0 then Inl RuntimeError
      else Inr (map (\<lambda>i. map (\<lambda>j. Fin (rng (k, i, j))) [0..<nat c]) [0..<nat r]))"

record attention =
  att_WK :: mat
  att_WQ :: mat
  att_WV :: mat
  att_mask :: bool

definition Attention_init ::
    "(nat \<times> nat \<times> nat \<Rightarrow> real) \<Rightarrow> nat \<Rightarrow> int \<Rightarrow> int \<Rightarrow> bool \<Rightarrow> error + attention" where
  "Attention_init rng k d_model d_key use_mask =
     ebind (randn rng k d_model d_key) (\<lambda>wk.
     ebind (randn rng (k + 1) d_model d_key) (\<lambda>wq.
     ebind (randn rng (k + 2) d_model d_key) (\<lambda>wv.
       Inr \<lparr>att_WK = wk, att_WQ = wq, att_WV = wv, att_mask = use_mask\<rparr>)))"

definition Attention_forward :: "attention \<Rightarrow> tensor3 \<Rightarrow> tensor3 option \<Rightarrow> error + tensor3" where
  "Attention_forward a inputs encoder_output =
     (let X = (case encoder_output of None \<Rightarrow> inputs | Some e \<Rightarrow> e) in
      ebind (matmul_bw X (att_WK a)) (\<lambda>K.
      ebind (matmul_bw X (att_WV a)) (\<lambda>V.
      ebind (matmul_bw inputs (att_WQ a)) (\<lambda>Q.
        ScaledDotProductAttention_forward (att_mask a) Q K V))))"

record multi_head_attention =
  mha_mask :: bool
  mha_h :: int
  mha_heads :: "attention list"
  mha_W :: mat

text \<open>
  The constructor. \<open>d_model % n_head\<close> is Python's floored remainder, which is \<open>mod\<close> on
  \<open>int\<close>, and raises ZeroDivisionError for \<open>n_head = 0\<close>; \<open>int(d_model / n_head)\<close> is
  the exact quotient once the assertion has passed.
\<close>

definition MultiHeadAttention_init ::
    "(nat \<times> nat \<times> nat \<Rightarrow> real) \<Rightarrow> int \<Rightarrow> int \<Rightarrow> bool \<Rightarrow> error + multi_head_attention" where
  "MultiHeadAttention_init rng n_head d_model use_mask =
     (if n_head = 0 then Inl ZeroDivisionError
      else if d_model mod n_head \<noteq> 0 then Inl AssertionError
      else
        (let d_key = d_model div n_head in
         ebind (emap (\<lambda>j. Attention_init rng (3 * j) d_model d_key use_mask) [0..<nat n_head])
           (\<lambda>attention_list.
         ebind (randn rng (3 * nat n_head) (n_head * d_key) d_model) (\<lambda>w.
           Inr \<lparr>mha_mask = use_mask, mha_h = n_head, mha_heads = attention_list, mha_W = w\<rparr>))))"

text \<open>
  \<open>torch.cat(tensors, -1)\<close>: the rows at the same batch index and position are appended.
  The list must not be empty and the tensors must agree on the other two axes.
\<close>

definition same_outer :: "tensor3 \<Rightarrow> tensor3 \<Rightarrow> bool" where
  "same_outer T U = list_all2 (\<lambda>M N. length M = length N) T U"

definition cat2 :: "tensor3 \<Rightarrow> tensor3 \<Rightarrow> tensor3" where
  "cat2 T U = map2 (map2 (@)) T U"

fun cat_list :: "tensor3 list \<Rightarrow> tensor3" where
  "cat_list [] = []"
| "cat_list [T] = T"
| "cat_list (T # U # Ts) = cat2 T (cat_list (U # Ts))"

definition cat_last :: "tensor3 list \<Rightarrow> error + tensor3" where
  "cat_last Ts =
     (case Ts of
        [] \<Rightarrow> Inl RuntimeError
      | T # rest \<Rightarrow> if list_all (same_outer T) rest then Inr (cat_list Ts) else Inl RuntimeError)"

definition MultiHeadAttention_forward ::
    "multi_head_attention \<Rightarrow> tensor3 \<Rightarrow> tensor3 option \<Rightarrow> error + tensor3" where
  "MultiHeadAttention_forward m x encoder_output =
     ebind (emap (\<lambda>a. Attention_forward a x encoder_output) (mha_heads m)) (\<lambda>attention_scores.
     ebind (cat_last attention_scores) (\<lambda>Z.
       matmul_bw Z (mha_W m)))"

section \<open>Feed-forward network, layer normalisation and the sublayer wrapper\<close>

text \<open>\<open>nn.Linear\<close>: \<open>y = x W\<^sup>T + b\<close> with \<open>W\<close> of shape (out, in); the input's last
  extent must be \<open>in\<close>.\<close>

record linear =
  lin_weight :: mat
  lin_bias :: vec

definition affine_v :: "linear \<Rightarrow> vec \<Rightarrow> vec" where
  "affine_v l r = map (\<lambda>(w, b). fadd (dot r w) b) (zip (lin_weight l) (lin_bias l))"

definition linear_v :: "linear \<Rightarrow> vec \<Rightarrow> error + vec" where
  "linear_v l r =
     (if length r = ncols (lin_weight l) then Inr (affine_v l r) else Inl RuntimeError)"

definition Linear_forward :: "linear \<Rightarrow> tensor3 \<Rightarrow> error + tensor3" where
  "Linear_forward l X = emap (emap (linear_v l)) X"

fun frelu :: "fl \<Rightarrow> fl" where
  "frelu (Fin a) = Fin (max 0 a)"
| "frelu PInf = PInf"
| "frelu NInf = Fin 0"
| "frelu NaN = NaN"

definition ReLU_forward :: "tensor3 \<Rightarrow> tensor3" where
  "ReLU_forward X = map (map (map frelu)) X"

record feed_forward_network =
  ffn_linear1 :: linear
  ffn_linear2 :: linear

definition FeedForwardNetwork_forward :: "feed_forward_network \<Rightarrow> tensor3 \<Rightarrow> error + tensor3" where
  "FeedForwardNetwork_forward f x =
     ebind (Linear_forward (ffn_linear1 f) x) (\<lambda>h.
       Linear_forward (ffn_linear2 f) (ReLU_forward h))"

text \<open>
  \<open>nn.LayerNorm(d_model)\<close> with its default \<open>eps = 1e-5\<close>: every feature vector is
  normalised by its mean and its (biased) variance, then scaled and shifted by the
  learned \<open>weight\<close> and \<open>bias\<close>, both of length \<open>d_model\<close>. An input whose last extent
  is not \<open>d_model\<close> is a RuntimeError.
\<close>

record layer_norm =
  ln_weight :: vec
  ln_bias :: vec

definition ln_eps :: fl where
  "ln_eps = Fin (1 / 100000)"

definition fmean :: "vec \<Rightarrow> fl" where
  "fmean r = fdiv (fsum r) (Fin (real (length r)))"

definition normalize_v :: "layer_norm \<Rightarrow> vec \<Rightarrow> vec" where
  "normalize_v nrm r =
     (let mean = fmean r;
          var = fmean (map (\<lambda>x. fmul (fsub x mean) (fsub x mean)) r);
          std = fsqrt (fadd var ln_eps)
      in map (\<lambda>(x, g, b). fadd (fmul (fdiv (fsub x mean) std) g) b)
           (zip r (zip (ln_weight nrm) (ln_bias nrm))))"

definition layer_norm_v :: "layer_norm \<Rightarrow> vec \<Rightarrow> error + vec" where
  "layer_norm_v nrm r =
     (if length r = length (ln_weight nrm) then Inr (normalize_v nrm r) else Inl RuntimeError)"

definition LayerNorm_forward :: "layer_norm \<Rightarrow> tensor3 \<Rightarrow> error + tensor3" where
  "LayerNorm_forward nrm X = emap (emap (layer_norm_v nrm)) X"

text \<open>Element-wise addition of two tensors; every axis broadcasts.\<close>

definition add_v :: "vec \<Rightarrow> vec \<Rightarrow> error + vec" where
  "add_v u v = bc_zip (\<lambda>a b. Inr (fadd a b)) u v"

definition add_m :: "mat \<Rightarrow> mat \<Rightarrow> error + mat" where
  "add_m A B = bc_zip add_v A B"

definition add_t :: "tensor3 \<Rightarrow> tensor3 \<Rightarrow> error + tensor3" where
  "add_t X Y = bc_zip add_m X Y"

definition Residual_Connection_forward ::
    "(tensor3 \<Rightarrow> error + tensor3) \<Rightarrow> tensor3 \<Rightarrow> error + tensor3" where
  "Residual_Connection_forward layer x =
     ebind (layer x) (\<lambda>f_x. add_t x f_x)"

definition Sublayer_forward ::
    "(tensor3 \<Rightarrow> error + tensor3) \<Rightarrow> layer_norm \<Rightarrow> tensor3 \<Rightarrow> error + tensor3" where
  "Sublayer_forward layer nrm x =
     ebind (Residual_Connection_forward layer x) (\<lambda>x'.
       LayerNorm_forward nrm x')"

section \<open>Encoder and decoder layers\<close>

record encoder =
  enc_attention :: multi_head_attention
  enc_feed_forward :: feed_forward_network
  enc_layer_norm1 :: layer_norm
  enc_layer_norm2 :: layer_norm

definition Encoder_forward :: "encoder \<Rightarrow> tensor3 \<Rightarrow> error + tensor3" where
  "Encoder_forward e x =
     ebind (MultiHeadAttention_forward (enc_attention e) x None) (\<lambda>attention_scores.
     ebind (add_t attention_scores x) (\<lambda>s1.
     ebind (LayerNorm_forward (enc_layer_norm1 e) s1) (\<lambda>x1.
     ebind (FeedForwardNetwork_forward (enc_feed_forward e) x1) (\<lambda>scores.
     ebind (add_t scores x1) (\<lambda>s2.
       LayerNorm_forward (enc_layer_norm2 e) s2)))))"

record decoder =
  dec_masked_attention :: multi_head_attention
  dec_attention :: multi_head_attention
  dec_feedforward :: feed_forward_network
  dec_layer_norm1 :: layer_norm
  dec_layer_norm2 :: layer_norm
  dec_layer_norm3 :: layer_norm

definition Decoder_forward :: "decoder \<Rightarrow> tensor3 \<Rightarrow> tensor3 \<Rightarrow> error + tensor3" where
  "Decoder_forward d x encoder_output =
     ebind (MultiHeadAttention_forward (dec_masked_attention d) x None)
       (\<lambda>masked_attention_scores.
     ebind (add_t masked_attention_scores x) (\<lambda>s1.
     ebind (LayerNorm_forward (dec_layer_norm1 d) s1) (\<lambda>x1.
     ebind (MultiHeadAttention_forward (dec_attention d) x1 (Some encoder_output))
       (\<lambda>attention_scores.
     ebind (add_t attention_scores x1) (\<lambda>s2.
     ebind (LayerNorm_forward (dec_layer_norm2 d) s2) (\<lambda>x2.
     ebind (FeedForwardNetwork_forward (dec_feedforward d) x2) (\<lambda>scores.
     ebind (add_t scores x2) (\<lambda>s3.
       LayerNorm_forward (dec_layer_norm3 d) s3))))))))"

section \<open>Positional encoding\<close>

text \<open>
  The assignment \<open>PE[:, start::2] = R\<close>. The slice on the left selects the columns
  \<open>start, start + 2, ...\<close> of \<open>PE\<close>; torch broadcasts the right-hand side to the shape of
  the slice, so its width must be the number of selected columns, or 1 (the single column
  is then written to every selected column). Anything else is a RuntimeError. The row
  counts are equal by construction.
\<close>

definition slice_len :: "nat \<Rightarrow> nat \<Rightarrow> nat" where
  "slice_len start D = (D + 1 - start) div 2"

definition setitem_row :: "nat \<Rightarrow> vec \<Rightarrow> vec \<Rightarrow> vec" where
  "setitem_row start row r =
     map (\<lambda>(c, v). if start \<le> c \<and> (c - start) mod 2 = 0
                     then (if length r = 1 then r ! 0 else r ! ((c - start) div 2))
                     else v)
       (enumerate 0 row)"

definition setitem_cols :: "nat \<Rightarrow> mat \<Rightarrow> mat \<Rightarrow> error + mat" where
  "setitem_cols start PE R =
     (if ncols R = slice_len start (ncols PE) \<or> ncols R = 1
      then Inr (map2 (setitem_row start) PE R)
      else Inl RuntimeError)"

text \<open>
  \<open>PositionalEncoding(d_model).forward(x)\<close>. Only the shape of \<open>x\<close> is read:
  \<open>x.shape[1:]\<close> is (sequence length, feature extent).
\<close>

definition PositionalEncoding_forward :: "nat \<Rightarrow> tensor3 \<Rightarrow> error + mat" where
  "PositionalEncoding_forward d_model x =
     (let PE = full (ncols x) (last_dim x) (Fin 0);
          position = [0..<length PE];
          i = [0..<d_model div 2];
          div_term = map (\<lambda>i. Fin (10000 powr (2 * real i / real d_model))) i;
          sin_term = map (\<lambda>p. map (\<lambda>d. fsin (fdiv (Fin (real p)) d)) div_term) position;
          cos_term = map (\<lambda>p. map (\<lambda>d. fcos (fdiv (Fin (real p)) d)) div_term) position
      in ebind (setitem_cols 0 PE sin_term) (\<lambda>PE1.
           setitem_cols 1 PE1 cos_term))"

section \<open>The Transformer\<close>

text \<open>
  \<open>nn.Embedding\<close>: the row of the weight matrix at each index; an index outside
  \<open>[0, n_token)\<close> is an IndexError.
\<close>

definition Embedding_forward :: "mat \<Rightarrow> int list list \<Rightarrow> error + tensor3" where
  "Embedding_forward E idx =
     emap (emap (\<lambda>t. if 0 \<le> t \<and> t < int (length E) then Inr (E ! nat t) else Inl IndexError)) idx"

definition mul_scalar :: "tensor3 \<Rightarrow> fl \<Rightarrow> tensor3" where
  "mul_scalar X c = map (map (map (\<lambda>v. fmul v c))) X"

text \<open>A batch plus a matrix: the matrix is added to every element of the batch.\<close>

definition add_tm :: "tensor3 \<Rightarrow> mat \<Rightarrow> error + tensor3" where
  "add_tm X P = emap (\<lambda>M. add_m M P) X"

text \<open>
  The model owns one embedding matrix, of shape (n_token, d_model); the forward pass
  reads it for the source embedding, for the target embedding and, transposed, for the
  projection before the softmax.
\<close>

record transformer =
  tr_n_token :: nat
  tr_n_layer :: nat
  tr_n_head :: nat
  tr_d_model :: nat
  tr_d_ff :: nat
  tr_encoders :: "encoder list"
  tr_decoders :: "decoder list"
  tr_embedding :: mat

text \<open>\<open>nn.Sequential(*encoders)\<close> and the loop over \<open>self.decoders\<close>.\<close>

fun run_encoders :: "encoder list \<Rightarrow> tensor3 \<Rightarrow> error + tensor3" where
  "run_encoders [] x = Inr x"
| "run_encoders (e # es) x = ebind (Encoder_forward e x) (run_encoders es)"

fun run_decoders :: "decoder list \<Rightarrow> tensor3 \<Rightarrow> tensor3 \<Rightarrow> error + tensor3" where
  "run_decoders [] decoder_output encoder_output = Inr decoder_output"
| "run_decoders (d # ds) decoder_output encoder_output =
     ebind (Decoder_forward d decoder_output encoder_output) (\<lambda>decoder_output'.
       run_decoders ds decoder_output' encoder_output)"

definition embed :: "transformer \<Rightarrow> int list list \<Rightarrow> error + tensor3" where
  "embed t x =
     ebind (Embedding_forward (tr_embedding t) x) (\<lambda>e.
       (let x1 = mul_scalar e (Fin (sqrt (real (tr_d_model t)))) in
        ebind (PositionalEncoding_forward (tr_d_model t) x1) (\<lambda>pe.
          add_tm x1 pe)))"

text \<open>The weight of the projection before the softmax.\<close>

definition pre_softmax_weight :: "transformer \<Rightarrow> mat" where
  "pre_softmax_weight t = transpose_m (tr_embedding t)"

definition Transformer_forward ::
    "transformer \<Rightarrow> int list list \<Rightarrow> int list list \<Rightarrow> error + tensor3" where
  "Transformer_forward t x y =
     ebind (embed t x) (\<lambda>x'.
     ebind (embed t y) (\<lambda>y'.
     ebind (run_encoders (tr_encoders t) x') (\<lambda>encoder_output.
     ebind (run_decoders (tr_decoders t) y' encoder_output) (\<lambda>decoder_output.
     ebind (matmul_bw decoder_output (pre_softmax_weight t)) (\<lambda>scores.
       Inr (softmax scores))))))"

section \<open>Definitions used in the statements\<close>

text \<open>\<open>torch.zeros_like\<close>: the tensor of zeros with the shape of the argument.\<close>

definition zeros_like :: "tensor3 \<Rightarrow> tensor3" where
  "zeros_like X = map (map (map (\<lambda>_. Fin 0))) X"

text \<open>
  The positional encoding as the specification words it, for a sequence of \<open>n\<close> positions:
  an (n, d_model) table whose even feature indices hold
  \<open>sin(position / 10000^(2i/d_model))\<close> and whose odd feature indices hold the
  corresponding \<open>cos\<close>, for \<open>i = feature_index div 2\<close>. This definition follows the
  specification, not the code; the code is compared with it below.
\<close>

definition spec_positional_encoding :: "nat \<Rightarrow> nat \<Rightarrow> mat" where
  "spec_positional_encoding n d_model =
     map (\<lambda>p. map (\<lambda>c. if even c
                         then Fin (sin (real p / 10000 powr (2 * real (c div 2) / real d_model)))
                         else Fin (cos (real p / 10000 powr (2 * real (c div 2) / real d_model))))
                [0..<d_model])
       [0..<n]"

section \<open>Well-formed models\<close>

text \<open>
  The shapes the constructors give the weights. An attention head for \<open>d_model\<close> and
  \<open>d_key\<close> owns three (d_model, d_key) matrices. A multi-head attention with \<open>h\<close> heads
  for a \<open>d_model\<close> that \<open>h\<close> divides owns \<open>h\<close> heads with \<open>d_key = d_model / h\<close>, which
  carry its mask flag, and an output matrix of shape (h * d_key, d_model).
\<close>

definition wf_attention :: "nat \<Rightarrow> nat \<Rightarrow> attention \<Rightarrow> bool" where
  "wf_attention d_model d_key a =
     (is_mat d_model d_key (att_WK a) \<and> is_mat d_model d_key (att_WQ a) \<and>
      is_mat d_model d_key (att_WV a))"

definition wf_multi_head_attention :: "nat \<Rightarrow> nat \<Rightarrow> multi_head_attention \<Rightarrow> bool" where
  "wf_multi_head_attention h d_model m =
     (0 < h \<and> d_model mod h = 0 \<and> mha_h m = int h \<and> length (mha_heads m) = h \<and>
      list_all (\<lambda>a. wf_attention d_model (d_model div h) a \<and> att_mask a = mha_mask m)
        (mha_heads m) \<and>
      is_mat (h * (d_model div h)) d_model (mha_W m))"

text \<open>
  A linear layer from \<open>n_in\<close> to \<open>n_out\<close> features owns an (n_out, n_in) weight and a
  bias of length n_out; a layer normalisation over \<open>d_model\<close> features owns a weight and a
  bias of that length. An encoder layer owns an unmasked multi-head attention, a
  feed-forward network and two normalisations; a decoder layer a masked and an unmasked
  multi-head attention, a feed-forward network and three normalisations. The Transformer
  owns \<open>n_layer\<close> of each and an embedding matrix of shape (n_token, d_model).
\<close>

definition wf_linear :: "nat \<Rightarrow> nat \<Rightarrow> linear \<Rightarrow> bool" where
  "wf_linear n_in n_out l = (is_mat n_out n_in (lin_weight l) \<and> length (lin_bias l) = n_out)"

definition wf_feed_forward_network :: "nat \<Rightarrow> nat \<Rightarrow> feed_forward_network \<Rightarrow> bool" where
  "wf_feed_forward_network d_model d_ff f =
     (wf_linear d_model d_ff (ffn_linear1 f) \<and> wf_linear d_ff d_model (ffn_linear2 f))"

definition wf_layer_norm :: "nat \<Rightarrow> layer_norm \<Rightarrow> bool" where
  "wf_layer_norm d_model l = (length (ln_weight l) = d_model \<and> length (ln_bias l) = d_model)"

definition wf_encoder :: "nat \<Rightarrow> nat \<Rightarrow> nat \<Rightarrow> encoder \<Rightarrow> bool" where
  "wf_encoder h d_model d_ff e =
     (wf_multi_head_attention h d_model (enc_attention e) \<and> mha_mask (enc_attention e) = False \<and>
      wf_feed_forward_network d_model d_ff (enc_feed_forward e) \<and>
      wf_layer_norm d_model (enc_layer_norm1 e) \<and> wf_layer_norm d_model (enc_layer_norm2 e))"

definition wf_decoder :: "nat \<Rightarrow> nat \<Rightarrow> nat \<Rightarrow> decoder \<Rightarrow> bool" where
  "wf_decoder h d_model d_ff d =
     (wf_multi_head_attention h d_model (dec_masked_attention d) \<and>
      mha_mask (dec_masked_attention d) = True \<and>
      wf_multi_head_attention h d_model (dec_attention d) \<and>
      mha_mask (dec_attention d) = False \<and>
      wf_feed_forward_network d_model d_ff (dec_feedforward d) \<and>
      wf_layer_norm d_model (dec_layer_norm1 d) \<and> wf_layer_norm d_model (dec_layer_norm2 d) \<and>
      wf_layer_norm d_model (dec_layer_norm3 d))"

definition wf_transformer :: "transformer \<Rightarrow> bool" where
  "wf_transformer t =
     (length (tr_encoders t) = tr_n_layer t \<and>
      list_all (wf_encoder (tr_n_head t) (tr_d_model t) (tr_d_ff t)) (tr_encoders t) \<and>
      length (tr_decoders t) = tr_n_layer t \<and>
      list_all (wf_decoder (tr_n_head t) (tr_d_model t) (tr_d_ff t)) (tr_decoders t) \<and>
      is_mat (tr_n_token t) (tr_d_model t) (tr_embedding t))"

text \<open>Token indices of shape (b, n), every index in \<open>[0, n_token)\<close>.\<close>

definition is_indices :: "nat \<Rightarrow> nat \<Rightarrow> nat \<Rightarrow> int list list \<Rightarrow> bool" where
  "is_indices n_token b n idx =
     (is_mat b n idx \<and> list_all (list_all (\<lambda>t. 0 \<le> t \<and> t < int n_token)) idx)"

section \<open>A small model\<close>

text \<open>
  A model with one layer, one head, d_model = 2 (so d_key = 2), d_ff = 1 and a vocabulary
  of two tokens, with the default weights of the layer normalisations.
\<close>

definition example_attention :: "bool \<Rightarrow> attention" where
  "example_attention use_mask =
     \<lparr>att_WK = [[Fin 1, Fin 0], [Fin 0, Fin 1]], att_WQ = [[Fin 1, Fin 0], [Fin 0, Fin 1]],
      att_WV = [[Fin 1, Fin 0], [Fin 0, Fin 1]], att_mask = use_mask\<rparr>"

definition example_multi_head_attention :: "bool \<Rightarrow> multi_head_attention" where
  "example_multi_head_attention use_mask =
     \<lparr>mha_mask = use_mask, mha_h = 1, mha_heads = [example_attention use_mask],
      mha_W = [[Fin 1, Fin 0], [Fin 0, Fin 1]]\<rparr>"

definition example_feed_forward :: feed_forward_network where
  "example_feed_forward =
     \<lparr>ffn_linear1 = \<lparr>lin_weight = [[Fin 1, Fin 1]], lin_bias = [Fin 0]\<rparr>,
      ffn_linear2 = \<lparr>lin_weight = [[Fin 1], [Fin 1]], lin_bias = [Fin 0, Fin 0]\<rparr>\<rparr>"

definition example_layer_norm :: layer_norm where
  "example_layer_norm = \<lparr>ln_weight = [Fin 1, Fin 1], ln_bias = [Fin 0, Fin 0]\<rparr>"

definition example_transformer :: transformer where
  "example_transformer =
     \<lparr>tr_n_token = 2, tr_n_layer = 1, tr_n_head = 1, tr_d_model = 2, tr_d_ff = 1,
      tr_encoders =
        [\<lparr>enc_attention = example_multi_head_attention False,
          enc_feed_forward = example_feed_forward,
          enc_layer_norm1 = example_layer_norm, enc_layer_norm2 = example_layer_norm\<rparr>],
      tr_decoders =
        [\<lparr>dec_masked_attention = example_multi_head_attention True,
          dec_attention = example_multi_head_attention False,
          dec_feedforward = example_feed_forward,
          dec_layer_norm1 = example_layer_norm, dec_layer_norm2 = example_layer_norm,
          dec_layer_norm3 = example_layer_norm\<rparr>],
      tr_embedding = [[Fin 1, Fin 2], [Fin 3, Fin 4]]\<rparr>"

section \<open>Properties of the arithmetic and of broadcasting\<close>


lemma overflow_Fin: "\<bar>r\<bar> < f32_overflow \<Longrightarrow> overflow r = Fin r"
  by (auto simp: overflow_def)

lemma fadd_zero_right: "is_float a \<Longrightarrow> fadd a (Fin 0) = a"
  by (cases a) (simp_all add: overflow_Fin)

lemma fadd_commute: "fadd a b = fadd b a"
  by (cases a; cases b) (simp_all add: add.commute)

lemma emap_zip_swap:
  "emap (\<lambda>(x, y). f x y) (zip xs ys) = emap (\<lambda>(y, x). f x y) (zip ys xs)"
  by (induction xs ys rule: list_induct2') (simp_all split: sum.splits)

lemma bc_zip_commute:
  assumes "\<And>x y. f x y = g y x"
  shows "bc_zip f xs ys = bc_zip g ys xs"
proof -
  have g: "g = (\<lambda>y x. f x y)" using assms by (intro ext) simp
  show ?thesis
    unfolding g bc_zip_def
    by (auto simp: emap_zip_swap[of f xs ys])
qed

lemma add_v_commute: "add_v u v = add_v v u"
  unfolding add_v_def by (rule bc_zip_commute) (simp add: fadd_commute)

lemma add_m_commute: "add_m A B = add_m B A"
  unfolding add_m_def by (rule bc_zip_commute) (rule add_v_commute)

lemma add_t_commute: "add_t X Y = add_t Y X"
  unfolding add_t_def by (rule bc_zip_commute) (rule add_m_commute)

lemma emap_zip_map_id:
  "(\<And>x. x \<in> set xs \<Longrightarrow> f x (g x) = Inr x) \<Longrightarrow>
   emap (\<lambda>(x, y). f x y) (zip xs (map g xs)) = Inr xs"
  by (induction xs) simp_all

lemma add_v_zeros: "list_all is_float u \<Longrightarrow> add_v u (map (\<lambda>_. Fin 0) u) = Inr u"
  unfolding add_v_def bc_zip_def
  by (simp add: emap_zip_map_id fadd_zero_right list_all_iff)

lemma add_m_zeros:
  "list_all (list_all is_float) A \<Longrightarrow> add_m A (map (map (\<lambda>_. Fin 0)) A) = Inr A"
  unfolding add_m_def bc_zip_def
  by (simp add: emap_zip_map_id add_v_zeros list_all_iff)

lemma add_t_zeros: "float_t X \<Longrightarrow> add_t X (zeros_like X) = Inr X"
  unfolding add_t_def bc_zip_def zeros_like_def float_t_def
  by (simp add: emap_zip_map_id add_m_zeros list_all_iff)

section \<open>Construction of multi-head attention\<close>

text \<open>
  C3. Constructing MultiHeadAttention with a model dimension that the head count does not
  divide fails in the constructor, on its assertion \<open>d_model % n_head == 0\<close>, before any
  weight is created: no layer comes into being. The failure is Python's AssertionError,
  which is the configuration error of the specification; 512 and 7 are such a pair.
\<close>

theorem multi_head_attention_init_indivisible:
  "n_head \<noteq> 0 \<Longrightarrow> d_model mod n_head \<noteq> 0 \<Longrightarrow>
   MultiHeadAttention_init rng n_head d_model use_mask = Inl AssertionError"
  by (simp add: MultiHeadAttention_init_def)

theorem multi_head_attention_init_indivisible_witness:
  "MultiHeadAttention_init (\<lambda>_. 0) 7 512 False = Inl AssertionError"
  using multi_head_attention_init_indivisible [of 7 512 "\<lambda>_. 0" False] by simp

section \<open>The encoder layer\<close>

text \<open>
  C9. The encoder layer, which writes its two residual sums and normalisations out by
  hand, computes for every input what the composition of two sublayer wrappers computes:
  the wrapper around the feed-forward network with the second normalisation, applied to
  the output of the wrapper around the multi-head self-attention with the first
  normalisation. The encoder adds \<open>L(x) + x\<close> where the wrapper adds \<open>x + L(x)\<close>; the
  sums are equal.
\<close>

theorem encoder_is_sublayer_composition:
  "Encoder_forward e x =
     ebind (Sublayer_forward (\<lambda>x. MultiHeadAttention_forward (enc_attention e) x None)
              (enc_layer_norm1 e) x)
       (Sublayer_forward (FeedForwardNetwork_forward (enc_feed_forward e)) (enc_layer_norm2 e))"
  by (simp add: Encoder_forward_def Sublayer_forward_def Residual_Connection_forward_def ebind_def
      add_t_commute split: sum.splits)

section \<open>Positional encoding: totality and values\<close>

lemmas pe_eval = PositionalEncoding_forward_def setitem_cols_def setitem_row_def slice_len_def
  full_def ncols_def last_dim_def ebind_def enumerate_eq_zip upt_rec

lemma ncols_tensor3: "is_tensor3 b n d x \<Longrightarrow> 0 < b \<Longrightarrow> ncols x = n"
  by (cases x) (simp_all add: is_tensor3_def is_mat_def ncols_def)

lemma last_dim_tensor3: "is_tensor3 b n d x \<Longrightarrow> 0 < b \<Longrightarrow> 0 < n \<Longrightarrow> last_dim x = d"
  apply (cases x) apply (simp_all add: is_tensor3_def is_mat_def last_dim_def ncols_def)
  subgoal for M Ms by (cases M) simp_all
  done

lemma ncols_map_upt: "0 < n \<Longrightarrow> ncols (map f [0..<n]) = length (f 0)"
  by (simp add: ncols_def upt_conv_Cons split: list.splits)

lemma ncols_replicate: "0 < n \<Longrightarrow> ncols (replicate n r) = length r"
  by (cases n) (simp_all add: ncols_def)

lemma sin1_ne: "sin (1::real) \<noteq> sin (1 / 10000 powr (2 * 1 / 3))"
proof -
  have "(10000::real) powr 0 < 10000 powr (2 * 1 / 3)"
    by (rule powr_less_mono) simp_all
  then have big: "1 < (10000::real) powr (2 * 1 / 3)" by simp
  then have lt: "1 / 10000 powr (2 * 1 / 3) < (1::real)" by simp
  have pos: "0 \<le> 1 / (10000::real) powr (2 * 1 / 3)" by simp
  have "- (pi / 2) \<le> 1 / (10000::real) powr (2 * 1 / 3)"
    using pos pi_ge_two by linarith
  moreover have "(1::real) \<le> pi / 2" using pi_ge_two by simp
  ultimately have "sin (1 / 10000 powr (2 * 1 / 3)) < sin (1::real)"
    using lt by (intro sin_monotone_2pi)
  then show ?thesis by simp
qed

lemma nth_setitem_row:
  "c < length row \<Longrightarrow>
   setitem_row start row r ! c =
     (if start \<le> c \<and> (c - start) mod 2 = 0
      then (if length r = 1 then r ! 0 else r ! ((c - start) div 2))
      else row ! c)"
  by (simp add: setitem_row_def nth_enumerate_eq)

lemma length_setitem_row: "length (setitem_row start row r) = length row"
  by (simp add: setitem_row_def)

lemma pe_even:
  assumes x: "is_tensor3 b n d x" and b: "0 < b" and n: "0 < n" and d: "even d"
  shows "PositionalEncoding_forward d x = Inr (spec_positional_encoding n d)"
proof -
  have nc: "ncols x = n" using x b by (rule ncols_tensor3)
  have ld: "last_dim x = d" using x b n by (rule last_dim_tensor3)
  define dt where "dt = map (\<lambda>i. Fin (10000 powr (2 * real i / real d))) [0..<d div 2]"
  define S where "S = map (\<lambda>p. map (\<lambda>v. fsin (fdiv (Fin (real p)) v)) dt) [0..<n]"
  define C where "C = map (\<lambda>p. map (\<lambda>v. fcos (fdiv (Fin (real p)) v)) dt) [0..<n]"
  define P0 where "P0 = full n d (Fin 0)"
  define P1 where "P1 = map2 (setitem_row 0) P0 S"
  define P2 where "P2 = map2 (setitem_row 1) P1 C"
  have lenP0: "length P0 = n" by (simp add: P0_def full_def)
  have ncP0: "ncols P0 = d" using n by (simp add: P0_def full_def ncols_replicate)
  have ncS: "ncols S = d div 2" using n by (simp add: S_def ncols_map_upt dt_def)
  have ncC: "ncols C = d div 2" using n by (simp add: C_def ncols_map_upt dt_def)
  have s0: "slice_len 0 d = d div 2" using d by (auto simp: slice_len_def elim!: evenE)
  have s1: "slice_len (Suc 0) d = d div 2" by (simp add: slice_len_def)
  have step1: "setitem_cols 0 P0 S = Inr P1"
    by (simp add: setitem_cols_def ncP0 ncS s0 P1_def)
  have lenP1: "length P1 = n" by (simp add: P1_def lenP0 S_def)
  have rowP1: "\<And>p. p < n \<Longrightarrow> length (P1 ! p) = d"
    by (simp add: P1_def lenP0 S_def length_setitem_row P0_def full_def)
  have ncP1: "ncols P1 = d"
    using n lenP1 rowP1[of 0] by (cases P1) (simp_all add: ncols_def)
  have step2: "setitem_cols 1 P1 C = Inr P2"
    by (simp add: setitem_cols_def ncP1 ncC s1 P2_def)
  have fwd: "PositionalEncoding_forward d x = Inr P2"
    unfolding PositionalEncoding_forward_def Let_def nc ld
    using step1 step2
    by (simp add: ebind_def P0_def[symmetric] lenP0 dt_def[symmetric] S_def[symmetric] C_def[symmetric])
  have "P2 = spec_positional_encoding n d"
  proof (rule nth_equalityI)
    show "length P2 = length (spec_positional_encoding n d)"
      by (simp add: P2_def lenP1 C_def spec_positional_encoding_def)
  next
    fix p assume "p < length P2"
    then have p: "p < n" by (simp add: P2_def lenP1 C_def)
    show "P2 ! p = spec_positional_encoding n d ! p"
    proof (rule nth_equalityI)
      show "length (P2 ! p) = length (spec_positional_encoding n d ! p)"
        using p by (simp add: P2_def lenP1 C_def length_setitem_row rowP1 spec_positional_encoding_def)
    next
      fix c assume "c < length (P2 ! p)"
      then have c: "c < d"
        using p by (simp add: P2_def lenP1 C_def length_setitem_row rowP1)
      have half: "c div 2 < d div 2" using c d by (auto elim!: evenE)
      have dtn: "dt ! (c div 2) = Fin (10000 powr (2 * real (c div 2) / real d))"
        using half by (simp add: dt_def)
      have one: "length dt = 1 \<Longrightarrow> c div 2 = 0"
        using half by (simp add: dt_def)
      show "P2 ! p ! c = spec_positional_encoding n d ! p ! c"
      proof (cases "even c")
        case True
        then have cond: "(1 \<le> c \<and> (c - 1) mod 2 = 0) = False" by presburger
        have "P2 ! p ! c = setitem_row 1 (P1 ! p) (C ! p) ! c"
          using p by (simp add: P2_def lenP1 C_def)
        also have "\<dots> = P1 ! p ! c"
          using c by (simp only: nth_setitem_row rowP1[OF p] cond if_False)
        also have "\<dots> = (if length dt = 1 then S ! p ! 0 else S ! p ! (c div 2))"
          using p c True by (simp add: P1_def lenP0 S_def nth_setitem_row P0_def full_def)
        also have "\<dots> = S ! p ! (c div 2)" using one by simp
        also have "\<dots> = Fin (sin (real p / 10000 powr (2 * real (c div 2) / real d)))"
          using p half by (simp add: S_def dtn) (simp add: dt_def)
        finally show ?thesis using p c True by (simp add: spec_positional_encoding_def)
      next
        case False
        then have cond: "(1 \<le> c \<and> (c - 1) mod 2 = 0) = True" by presburger
        have lenC: "length (C ! p) = length dt" using p by (simp add: C_def)
        have "P2 ! p ! c = setitem_row 1 (P1 ! p) (C ! p) ! c"
          using p by (simp add: P2_def lenP1 C_def)
        also have "\<dots> = (if length dt = 1 then C ! p ! 0 else C ! p ! ((c - 1) div 2))"
          using c by (simp only: nth_setitem_row rowP1[OF p] cond if_True lenC)
        also have "(c - 1) div 2 = c div 2" using False by presburger
        also have "(if length dt = 1 then C ! p ! 0 else C ! p ! (c div 2)) = C ! p ! (c div 2)"
          using one by simp
        also have "\<dots> = Fin (cos (real p / 10000 powr (2 * real (c div 2) / real d)))"
          using p half by (simp add: C_def dtn) (simp add: dt_def)
        finally show ?thesis using p c False by (simp add: spec_positional_encoding_def)
      qed
    qed
  qed
  with fwd show ?thesis by simp
qed

lemma length_full: "length (full n d v) = n"
  by (simp add: full_def)

lemma pe_odd:
  assumes x: "is_tensor3 b n d x" and b: "0 < b" and n: "0 < n" and d: "odd d" and d3: "d \<noteq> 3"
  shows "PositionalEncoding_forward d x = Inl RuntimeError"
proof -
  have nc: "ncols x = n" using x b by (rule ncols_tensor3)
  have ld: "last_dim x = d" using x b n by (rule last_dim_tensor3)
  have ncP0: "ncols (full n d (Fin 0)) = d" using n by (simp add: full_def ncols_replicate)
  have a: "d div 2 \<noteq> slice_len 0 d" using d by (auto simp: slice_len_def elim!: oddE)
  have c: "d div 2 \<noteq> 1" using d d3 by presburger
  show ?thesis
    unfolding PositionalEncoding_forward_def Let_def nc ld
    using n a c by (simp add: setitem_cols_def ncP0 ncols_map_upt ebind_def length_full)
qed

lemma pe_three:
  assumes x: "is_tensor3 b n 3 x" and b: "0 < b" and n: "0 < n"
  shows "PositionalEncoding_forward 3 x =
           Inr (map (\<lambda>p. [Fin (sin (real p)), Fin (cos (real p)), Fin (sin (real p))]) [0..<n])"
proof -
  have nc: "ncols x = n" using x b by (rule ncols_tensor3)
  have ld: "last_dim x = 3" using x b n by (rule last_dim_tensor3)
  have ncP0: "ncols (replicate n [Fin 0, Fin 0, Fin 0]) = 3"
    using n by (simp add: ncols_replicate)
  have r3: "replicate 3 (Fin 0) = [Fin 0, Fin 0, Fin 0]" by (simp add: numeral_3_eq_3)
  have u: "[0..<Suc 0] = [0]" by simp
  have P1: "map2 (setitem_row 0) (replicate n [Fin 0, Fin 0, Fin 0])
              (map (\<lambda>p. [Fin (sin (real p))]) [0..<n])
            = map (\<lambda>p. [Fin (sin (real p)), Fin 0, Fin (sin (real p))]) [0..<n]"
    by (rule nth_equalityI) (simp_all add: setitem_row_def)
  have nc1: "ncols (map (\<lambda>p. [Fin (sin (real p)), Fin 0, Fin (sin (real p))]) [0..<n]) = 3"
    using n by (simp add: ncols_map_upt)
  have P2: "map2 (setitem_row (Suc 0)) (map (\<lambda>p. [Fin (sin (real p)), Fin 0, Fin (sin (real p))]) [0..<n])
              (map (\<lambda>p. [Fin (cos (real p))]) [0..<n])
            = map (\<lambda>p. [Fin (sin (real p)), Fin (cos (real p)), Fin (sin (real p))]) [0..<n]"
    by (rule nth_equalityI) (simp_all add: setitem_row_def)
  show ?thesis
    unfolding PositionalEncoding_forward_def Let_def nc ld
    using n
    by (simp add: setitem_cols_def full_def r3 ncP0 ncols_map_upt ebind_def u P1 nc1 P2)
qed

lemma is_mat_spec_positional_encoding: "is_mat n d (spec_positional_encoding n d)"
  by (simp add: is_mat_def spec_positional_encoding_def list_all_iff)

lemma spec_positional_encoding_row0:
  "0 < n \<Longrightarrow> spec_positional_encoding n d ! 0 = map (\<lambda>c. if even c then Fin 0 else Fin 1) [0..<d]"
  by (simp add: spec_positional_encoding_def)

text \<open>
  C10 (as amended). For an input of shape (batch, n, d_model) with at least one position,
  the forward pass of the positional encoding fails with a shape mismatch for every odd
  d_model other than 3: the slice of even columns has (d_model + 1) div 2 columns and the
  computed sine term d_model div 2, which is neither equal nor 1. For d_model = 3 the sine
  and cosine terms have one column each, the slice assignments broadcast it, and the pass
  succeeds: every row is (sin p, cos p, sin p). For every even d_model from 2 on the pass
  succeeds with a table of shape (n, d_model).
\<close>

theorem positional_encoding_total_iff:
  assumes "is_tensor3 b n d x" and "0 < b" and "0 < n"
  shows "(odd d \<and> d \<noteq> 3 \<longrightarrow> PositionalEncoding_forward d x = Inl RuntimeError) \<and>
         (d = 3 \<longrightarrow> PositionalEncoding_forward d x =
            Inr (map (\<lambda>p. [Fin (sin (real p)), Fin (cos (real p)), Fin (sin (real p))]) [0..<n])) \<and>
         (even d \<and> 2 \<le> d \<longrightarrow> (\<exists>P. PositionalEncoding_forward d x = Inr P \<and> is_mat n d P))"
  using assms pe_odd pe_three pe_even is_mat_spec_positional_encoding by blast

theorem positional_encoding_total_iff_witness:
  "PositionalEncoding_forward 5 [[[Fin 0, Fin 0, Fin 0, Fin 0, Fin 0]]] = Inl RuntimeError \<and>
   PositionalEncoding_forward 3 [[[Fin 7, Fin 7, Fin 7]]] = Inr [[Fin 0, Fin 1, Fin 0]] \<and>
   (\<exists>P. PositionalEncoding_forward 2 [[[Fin 7, Fin 7]]] = Inr P \<and> is_mat 1 2 P)"
  using positional_encoding_total_iff [of 1 1 5 "[[[Fin 0, Fin 0, Fin 0, Fin 0, Fin 0]]]"]
        positional_encoding_total_iff [of 1 1 3 "[[[Fin 7, Fin 7, Fin 7]]]"]
        positional_encoding_total_iff [of 1 1 2 "[[[Fin 7, Fin 7]]]"]
  by (simp add: is_tensor3_def is_mat_def)

text \<open>
  The claim C10 as first stated (every odd d_model fails) is false at d_model = 3.
\<close>

theorem positional_encoding_odd3_counterexample:
  "PositionalEncoding_forward 3 [[[Fin 0, Fin 0, Fin 0]]] = Inr [[Fin 0, Fin 1, Fin 0]]"
  by (simp add: pe_eval)

text \<open>
  C8 (as amended). For even d_model, the forward pass of the positional encoding on an
  input of shape (batch, n, d_model) returns the table of the specification: even feature
  indices hold \<open>sin(position / 10000^(2i/d_model))\<close>, odd ones the corresponding cosine,
  with \<open>i = feature_index div 2\<close>. The result is a function of (n, d_model) alone: two
  inputs of that sequence length and width, whatever their entries and batch sizes, give
  the same table. Its row for position 0 alternates 0, 1, 0, 1, ...
\<close>

theorem positional_encoding_sinusoid:
  assumes "is_tensor3 b n d x" and "is_tensor3 b' n d x'"
    and "0 < b" and "0 < b'" and "0 < n" and "even d"
  shows "PositionalEncoding_forward d x = Inr (spec_positional_encoding n d) \<and>
         PositionalEncoding_forward d x' = PositionalEncoding_forward d x \<and>
         spec_positional_encoding n d ! 0 = map (\<lambda>c. if even c then Fin 0 else Fin 1) [0..<d]"
  using assms by (simp add: pe_even spec_positional_encoding_row0)

theorem positional_encoding_sinusoid_witness:
  "PositionalEncoding_forward 2 [[[Fin 7, Fin 7], [Fin 7, Fin 7]]] = Inr (spec_positional_encoding 2 2) \<and>
   PositionalEncoding_forward 2 [[[Fin 1, Fin 2], [Fin 3, Fin 4]], [[Fin 1, Fin 2], [Fin 3, Fin 4]]]
     = PositionalEncoding_forward 2 [[[Fin 7, Fin 7], [Fin 7, Fin 7]]] \<and>
   spec_positional_encoding 2 2 ! 0 = [Fin 0, Fin 1]"
  using positional_encoding_sinusoid [of 1 2 2 "[[[Fin 7, Fin 7], [Fin 7, Fin 7]]]" 2
     "[[[Fin 1, Fin 2], [Fin 3, Fin 4]], [[Fin 1, Fin 2], [Fin 3, Fin 4]]]"]
  by (simp add: is_tensor3_def is_mat_def upt_rec)

text \<open>
  The claim C8 as first stated, for every d_model, is false at d_model = 3, where the
  forward pass succeeds by broadcasting: feature index 2 of position 1 holds \<open>sin 1\<close>,
  the value for \<open>i = 0\<close>, and not \<open>sin (1 / 10000^(2/3))\<close>, the value for \<open>i = 1\<close>.
\<close>

theorem positional_encoding_formula_counterexample:
  "PositionalEncoding_forward 3 [[[Fin 0, Fin 0, Fin 0], [Fin 0, Fin 0, Fin 0]]]
     = Inr [[Fin 0, Fin 1, Fin 0], [Fin (sin 1), Fin (cos 1), Fin (sin 1)]] \<and>
   spec_positional_encoding 2 3 ! 1 ! 2 = Fin (sin (1 / 10000 powr (2 * 1 / 3))) \<and>
   sin (1::real) \<noteq> sin (1 / 10000 powr (2 * 1 / 3))"
  using sin1_ne by (simp add: pe_eval spec_positional_encoding_def)

section \<open>Shapes of the tensor operations\<close>

lemma emap_Inr_map: "(\<And>x. x \<in> set xs \<Longrightarrow> f x = Inr (g x)) \<Longrightarrow> emap f xs = Inr (map g xs)"
  by (induction xs) simp_all

lemma bc_zip_same_length:
  assumes "length xs = length ys"
    and "\<And>i. i < length xs \<Longrightarrow> f (xs ! i) (ys ! i) = Inr (g (xs ! i) (ys ! i))"
  shows "bc_zip f xs ys = Inr (map2 g xs ys)"
proof -
  have "emap (\<lambda>(x, y). f x y) (zip xs ys) = Inr (map (\<lambda>(x, y). g x y) (zip xs ys))"
  proof (rule emap_Inr_map)
    fix p assume "p \<in> set (zip xs ys)"
    then obtain i where "i < length xs" "p = (xs ! i, ys ! i)"
      using assms(1) by (auto simp: set_zip)
    then show "(case p of (x, y) \<Rightarrow> f x y) = Inr (case p of (x, y) \<Rightarrow> g x y)"
      using assms(2) by simp
  qed
  then show ?thesis using assms(1) by (simp add: bc_zip_def)
qed

lemma is_matI:
  "length M = n \<Longrightarrow> (\<And>i. i < n \<Longrightarrow> length (M ! i) = d) \<Longrightarrow> is_mat n d M"
  by (simp add: is_mat_def list_all_length)

lemma is_mat_length: "is_mat n d M \<Longrightarrow> length M = n"
  by (simp add: is_mat_def)

lemma is_mat_row: "is_mat n d M \<Longrightarrow> i < n \<Longrightarrow> length (M ! i) = d"
  by (simp add: is_mat_def list_all_length)

lemma is_mat_ncols: "is_mat n d M \<Longrightarrow> 0 < n \<Longrightarrow> ncols M = d"
  by (cases M) (simp_all add: is_mat_def ncols_def)

lemma is_tensor3I:
  "length X = b \<Longrightarrow> (\<And>i. i < b \<Longrightarrow> is_mat n d (X ! i)) \<Longrightarrow> is_tensor3 b n d X"
  by (simp add: is_tensor3_def list_all_length)

lemma is_tensor3_length: "is_tensor3 b n d X \<Longrightarrow> length X = b"
  by (simp add: is_tensor3_def)

lemma is_tensor3_nth: "is_tensor3 b n d X \<Longrightarrow> i < b \<Longrightarrow> is_mat n d (X ! i)"
  by (simp add: is_tensor3_def list_all_length)

lemma is_tensor3_set: "is_tensor3 b n d X \<Longrightarrow> M \<in> set X \<Longrightarrow> is_mat n d M"
  by (simp add: is_tensor3_def list_all_iff)


lemma length_transpose_m: "length (transpose_m M) = ncols M"
  by (simp add: transpose_m_def)

lemma is_mat_transpose_m: "is_mat n d M \<Longrightarrow> 0 < n \<Longrightarrow> is_mat d n (transpose_m M)"
  by (rule is_matI) (simp_all add: transpose_m_def is_mat_ncols column_def is_mat_length)

lemma nth_transpose_m:
  "is_mat n d M \<Longrightarrow> 0 < n \<Longrightarrow> j < d \<Longrightarrow> transpose_m M ! j = column M j"
  by (simp add: transpose_m_def is_mat_ncols)

lemma is_mat_mm: "is_mat n k A \<Longrightarrow> is_mat k m B \<Longrightarrow> 0 < k \<Longrightarrow> is_mat n m (mm A B)"
  by (rule is_matI) (simp_all add: mm_def is_mat_length length_transpose_m is_mat_ncols)

lemma nth_mm:
  "is_mat n k A \<Longrightarrow> is_mat k m B \<Longrightarrow> 0 < k \<Longrightarrow> i < n \<Longrightarrow> j < m \<Longrightarrow>
   mm A B ! i ! j = dot (A ! i) (column B j)"
  by (simp add: mm_def is_mat_length length_transpose_m is_mat_ncols nth_transpose_m)

lemma matmul_Inr: "is_mat n k A \<Longrightarrow> is_mat k m B \<Longrightarrow> matmul A B = Inr (mm A B)"
  by (simp add: matmul_def is_mat_def)

lemma matmul_bw_Inr:
  "is_tensor3 b n k X \<Longrightarrow> is_mat k m W \<Longrightarrow> matmul_bw X W = Inr (map (\<lambda>M. mm M W) X)"
  unfolding matmul_bw_def
  by (rule emap_Inr_map) (auto intro: matmul_Inr dest: is_tensor3_set)

lemma is_tensor3_map:
  "is_tensor3 b n d X \<Longrightarrow> (\<And>M. is_mat n d M \<Longrightarrow> is_mat n' d' (f M)) \<Longrightarrow>
   is_tensor3 b n' d' (map f X)"
  by (rule is_tensor3I) (auto simp: is_tensor3_length dest: is_tensor3_nth)

lemma is_tensor3_matmul_bw:
  "is_tensor3 b n k X \<Longrightarrow> is_mat k m W \<Longrightarrow> 0 < k \<Longrightarrow>
   is_tensor3 b n m (map (\<lambda>M. mm M W) X)"
  by (erule is_tensor3_map) (rule is_mat_mm)

lemma matmul_bb_Inr:
  assumes "is_tensor3 b n k X" and "is_tensor3 b k m Y"
  shows "matmul_bb X Y = Inr (map2 mm X Y)"
  unfolding matmul_bb_def
proof (rule bc_zip_same_length)
  show "length X = length Y" using assms by (simp add: is_tensor3_length)
next
  fix i assume "i < length X"
  then have "i < b" using assms by (simp add: is_tensor3_length)
  then show "matmul (X ! i) (Y ! i) = Inr (mm (X ! i) (Y ! i))"
    using assms by (intro matmul_Inr) (auto dest: is_tensor3_nth)
qed

lemma is_tensor3_map2:
  assumes "is_tensor3 b n d X" and "is_tensor3 b n' d' Y"
    and "\<And>M N. is_mat n d M \<Longrightarrow> is_mat n' d' N \<Longrightarrow> is_mat n'' d'' (f M N)"
  shows "is_tensor3 b n'' d'' (map2 f X Y)"
  using assms by (intro is_tensor3I) (auto simp: is_tensor3_length dest: is_tensor3_nth)

lemma is_tensor3_map2_mm:
  assumes "is_tensor3 b n k X" and "is_tensor3 b k m Y" and "0 < k"
  shows "is_tensor3 b n m (map2 mm X Y)"
  using assms(1,2) by (rule is_tensor3_map2) (simp add: is_mat_mm assms(3))

lemma length_softmax_v: "length (softmax_v xs) = length xs"
  by (simp add: softmax_v_def Let_def)

lemma is_mat_map_rows:
  "is_mat n d M \<Longrightarrow> (\<And>r. length r = d \<Longrightarrow> length (f r) = d') \<Longrightarrow> is_mat n d' (map f M)"
  by (rule is_matI) (auto simp: is_mat_length dest: is_mat_row)

lemma is_tensor3_softmax: "is_tensor3 b n d X \<Longrightarrow> is_tensor3 b n d (softmax X)"
  unfolding softmax_def
  by (erule is_tensor3_map) (erule is_mat_map_rows, simp add: length_softmax_v)

lemma is_tensor3_div_scalar: "is_tensor3 b n d X \<Longrightarrow> is_tensor3 b n d (div_scalar X c)"
  unfolding div_scalar_def
  by (erule is_tensor3_map) (erule is_mat_map_rows, simp)


lemma nth_look_ahead_mask:
  "i < n \<Longrightarrow> c < d \<Longrightarrow> look_ahead_mask n d ! i ! c = (if i + 1 \<le> c then NInf else Fin 1)"
  by (simp add: look_ahead_mask_def zeros_to_one_def triu1_def full_def nth_enumerate_eq)

lemma is_mat_look_ahead_mask: "is_mat n d (look_ahead_mask n d)"
  by (rule is_matI)
     (simp_all add: look_ahead_mask_def zeros_to_one_def triu1_def full_def nth_enumerate_eq)

lemma is_mat_mul_m: "is_mat n d A \<Longrightarrow> is_mat n d B \<Longrightarrow> is_mat n d (mul_m A B)"
  by (rule is_matI) (simp_all add: mul_m_def is_mat_length is_mat_row)

lemma nth_mul_m:
  "is_mat n d A \<Longrightarrow> is_mat n d B \<Longrightarrow> i < n \<Longrightarrow> c < d \<Longrightarrow>
   mul_m A B ! i ! c = fmul (A ! i ! c) (B ! i ! c)"
  by (simp add: mul_m_def is_mat_length is_mat_row)

lemma is_mat_mask_m:
  assumes "is_mat n d M"
  shows "is_mat n d (mul_m M (look_ahead_mask (length M) (ncols M)))"
proof (cases "n = 0")
  case True
  then show ?thesis using assms by (simp add: is_mat_def mul_m_def)
next
  case False
  then have "ncols M = d" "length M = n" using assms by (simp_all add: is_mat_ncols is_mat_length)
  then show ?thesis using assms by (simp add: is_mat_mul_m is_mat_look_ahead_mask)
qed

lemma is_tensor3_apply_mask: "is_tensor3 b n d X \<Longrightarrow> is_tensor3 b n d (apply_mask X)"
  unfolding apply_mask_def by (erule is_tensor3_map) (rule is_mat_mask_m)

lemma nth_apply_mask:
  assumes "is_tensor3 b n d X" and "bi < b" and "i < n" and "c < d"
  shows "apply_mask X ! bi ! i ! c = fmul (X ! bi ! i ! c) (if i + 1 \<le> c then NInf else Fin 1)"
proof -
  have M: "is_mat n d (X ! bi)" using assms by (auto dest: is_tensor3_nth)
  then have "ncols (X ! bi) = d" "length (X ! bi) = n"
    using assms by (simp_all add: is_mat_ncols is_mat_length)
  then show ?thesis
    using assms M
    by (simp add: apply_mask_def is_tensor3_length nth_mul_m is_mat_look_ahead_mask
        nth_look_ahead_mask)
qed

lemma attention_weights_Inr:
  assumes "is_tensor3 b nq dk Q" and "is_tensor3 b nk dk K" and "0 < nk"
  shows "attention_weights Q K =
           Inr (softmax (div_scalar (map2 mm Q (map transpose_m K))
                  (Fin (sqrt (real (last_dim K))))))"
proof -
  have "is_tensor3 b dk nk (map transpose_m K)"
    using assms(2,3) by (auto intro: is_tensor3_map is_mat_transpose_m)
  then have "matmul_bb Q (map transpose_m K) = Inr (map2 mm Q (map transpose_m K))"
    using assms(1) by (rule matmul_bb_Inr[rotated])
  then show ?thesis by (simp add: attention_weights_def)
qed

lemma is_tensor3_attention_scores:
  assumes "is_tensor3 b nq dk Q" and "is_tensor3 b nk dk K" and "0 < nk" and "0 < dk"
  shows "is_tensor3 b nq nk (map2 mm Q (map transpose_m K))"
proof -
  have "is_tensor3 b dk nk (map transpose_m K)"
    using assms(2,3) by (auto intro: is_tensor3_map is_mat_transpose_m)
  with assms(1) show ?thesis
    using assms(4) by (rule is_tensor3_map2_mm)
qed

lemma ScaledDotProductAttention_forward_Inr:
  assumes "is_tensor3 b nq dk Q" and "is_tensor3 b nk dk K" and "is_tensor3 b nk dv V"
    and "0 < nk" and "0 < dk"
  shows "\<exists>W out. attention_weights Q K = Inr W \<and> is_tensor3 b nq nk W \<and>
           ScaledDotProductAttention_forward use_mask Q K V = Inr out \<and>
           out = (if use_mask then apply_mask (map2 mm W V) else map2 mm W V) \<and>
           is_tensor3 b nq dv out"
proof -
  define W where "W = softmax (div_scalar (map2 mm Q (map transpose_m K))
                  (Fin (sqrt (real (last_dim K)))))"
  have aw: "attention_weights Q K = Inr W"
    unfolding W_def using assms(1,2,4) by (rule attention_weights_Inr)
  have W: "is_tensor3 b nq nk W"
    unfolding W_def
    using assms by (intro is_tensor3_softmax is_tensor3_div_scalar is_tensor3_attention_scores)
  have mmv: "matmul_bb W V = Inr (map2 mm W V)"
    using W assms(3) by (rule matmul_bb_Inr)
  have sh: "is_tensor3 b nq dv (map2 mm W V)"
    using W assms(3) assms(4) by (rule is_tensor3_map2_mm)
  show ?thesis
    using aw W mmv sh
    by (auto simp: ScaledDotProductAttention_forward_def is_tensor3_apply_mask)
qed

section \<open>Bounded values and the softmax\<close>















lemmas sdpa_eval = ScaledDotProductAttention_forward_def attention_weights_def matmul_bb_def
  bc_zip_def matmul_def mm_def transpose_m_def column_def ncols_def dot_def last_dim_def
  div_scalar_def softmax_def softmax_v_def fsub_def apply_mask_def mul_m_def look_ahead_mask_def
  zeros_to_one_def triu1_def full_def inf_signed_def overflow_def f32_overflow_def upt_rec

section \<open>Scaled dot-product attention: shape, weights and the mask\<close>




text \<open>
  What the mask branch computes: with the flag set, the output is the unmasked output
  multiplied entry by entry with a mask over (query position, feature column), minus
  infinity where the feature column exceeds the query position and 1 elsewhere. The
  softmax has already been taken over all the keys.
\<close>

lemma sdpa_masked_entries:
  assumes "is_tensor3 b nq dk Q" and "is_tensor3 b nk dk K" and "is_tensor3 b nk dv V"
    and "0 < nk" and "0 < dk" and "bi < b" and "i < nq" and "c < dv"
  shows "\<exists>out out'. ScaledDotProductAttention_forward False Q K V = Inr out \<and>
           ScaledDotProductAttention_forward True Q K V = Inr out' \<and>
           out' ! bi ! i ! c = fmul (out ! bi ! i ! c) (if i + 1 \<le> c then NInf else Fin 1)"
proof -
  obtain W out where "ScaledDotProductAttention_forward False Q K V = Inr out"
    and aw: "attention_weights Q K = Inr W" and "out = map2 mm W V" and "is_tensor3 b nq dv out"
    using ScaledDotProductAttention_forward_Inr[OF assms(1-5), of False] by auto
  moreover obtain W' out' where "ScaledDotProductAttention_forward True Q K V = Inr out'"
    and "attention_weights Q K = Inr W'" and "out' = apply_mask (map2 mm W' V)"
    using ScaledDotProductAttention_forward_Inr[OF assms(1-5), of True] by auto
  moreover have "W' = W" using aw calculation by simp
  ultimately show ?thesis
    using nth_apply_mask[where X = out and n = nq and d = dv, OF _ assms(6-8)] by auto
qed

text \<open>
  C1 does not hold of the code. The look-ahead mask is not applied to the scores before
  the softmax but to the weighted values after it, and along the feature axis. The two
  calls below have the same query and key and differ only in the value row of key
  position 1; the outputs at query position 0 differ (1 against 2 in feature column 0),
  so a change at a later position reaches an earlier one. Feature column 1 of position 0
  is minus infinity in both.
\<close>

theorem sdpa_mask_leaks_future_position:
  "ScaledDotProductAttention_forward True
      [[[Fin 0], [Fin 0]]] [[[Fin 0], [Fin 0]]] [[[Fin 1, Fin 1], [Fin 1, Fin 1]]]
     = Inr [[[Fin 1, NInf], [Fin 1, Fin 1]]] \<and>
   ScaledDotProductAttention_forward True
      [[[Fin 0], [Fin 0]]] [[[Fin 0], [Fin 0]]] [[[Fin 1, Fin 1], [Fin 3, Fin 3]]]
     = Inr [[[Fin 2, NInf], [Fin 2, Fin 2]]]"
  by (simp add: sdpa_eval)

section \<open>Multi-head attention: construction and shape\<close>

lemma is_mat_randn:
  "randn rng k (int r) (int c) = Inr (map (\<lambda>i. map (\<lambda>j. Fin (rng (k, i, j))) [0..<c]) [0..<r])"
  by (simp add: randn_def)

lemma is_mat_randn_shape:
  "is_mat r c (map (\<lambda>i. map (\<lambda>j. Fin (rng (k, i, j))) [0..<c]) [0..<r])"
  by (rule is_matI) simp_all

lemma Attention_init_wf:
  "\<exists>a. Attention_init rng k (int d_model) (int d_key) use_mask = Inr a \<and>
       wf_attention d_model d_key a \<and> att_mask a = use_mask"
  by (simp add: Attention_init_def is_mat_randn ebind_def wf_attention_def is_mat_randn_shape)

lemma emap_Inr_ex:
  assumes "\<And>x. x \<in> set xs \<Longrightarrow> \<exists>y. f x = Inr y \<and> P y"
  shows "\<exists>ys. emap f xs = Inr ys \<and> length ys = length xs \<and> list_all P ys"
  using assms
proof (induction xs)
  case Nil
  then show ?case by simp
next
  case (Cons x xs)
  then obtain y where y: "f x = Inr y" "P y" by auto
  obtain ys where ys: "emap f xs = Inr ys" "length ys = length xs" "list_all P ys"
    using Cons by auto
  show ?case using y ys by simp
qed

text \<open>The constructor, where it succeeds, builds a well-formed layer.\<close>

lemma MultiHeadAttention_init_wf:
  assumes "0 < h" and "d_model mod h = 0"
  shows "\<exists>m. MultiHeadAttention_init rng (int h) (int d_model) use_mask = Inr m \<and>
           wf_multi_head_attention h d_model m \<and> mha_mask m = use_mask"
proof -
  have dk: "int d_model div int h = int (d_model div h)" by (simp add: zdiv_int)
  have md: "int d_model mod int h = 0" using assms(2) by (metis of_nat_0 zmod_int)
  obtain hs where hs: "emap (\<lambda>j. Attention_init rng (3 * j) (int d_model) (int (d_model div h)) use_mask) [0..<h] = Inr hs"
    and lh: "length hs = length [0..<h]"
    and wh: "list_all (\<lambda>a. wf_attention d_model (d_model div h) a \<and> att_mask a = use_mask) hs"
    using emap_Inr_ex[of "[0..<h]" "\<lambda>j. Attention_init rng (3 * j) (int d_model) (int (d_model div h)) use_mask"
        "\<lambda>a. wf_attention d_model (d_model div h) a \<and> att_mask a = use_mask"]
      Attention_init_wf by blast
  have w: "randn rng (3 * h) (int h * int (d_model div h)) (int d_model) =
      Inr (map (\<lambda>i. map (\<lambda>j. Fin (rng (3 * h, i, j))) [0..<d_model]) [0..<h * (d_model div h)])"
    using is_mat_randn[of rng "3 * h" "h * (d_model div h)" d_model] by simp
  show ?thesis
    using assms hs lh wh
    by (simp add: MultiHeadAttention_init_def md dk ebind_def w wf_multi_head_attention_def
        is_mat_randn_shape)
qed

lemma Attention_forward_Inr:
  assumes a: "wf_attention d_model d_key a" and x: "is_tensor3 b n d_model x"
    and e: "is_tensor3 b n' d_model e" and n': "0 < n'" and dm: "0 < d_model" and dk: "0 < d_key"
    and enc: "encoder_output = None \<and> e = x \<or> encoder_output = Some e"
  shows "\<exists>out. Attention_forward a x encoder_output = Inr out \<and> is_tensor3 b n d_key out"
proof -
  have X: "(case encoder_output of None \<Rightarrow> x | Some e \<Rightarrow> e) = e" using enc by auto
  have WK: "is_mat d_model d_key (att_WK a)" and WQ: "is_mat d_model d_key (att_WQ a)"
    and WV: "is_mat d_model d_key (att_WV a)" using a by (simp_all add: wf_attention_def)
  have K: "matmul_bw e (att_WK a) = Inr (map (\<lambda>M. mm M (att_WK a)) e)"
    using e WK by (rule matmul_bw_Inr)
  have V: "matmul_bw e (att_WV a) = Inr (map (\<lambda>M. mm M (att_WV a)) e)"
    using e WV by (rule matmul_bw_Inr)
  have Q: "matmul_bw x (att_WQ a) = Inr (map (\<lambda>M. mm M (att_WQ a)) x)"
    using x WQ by (rule matmul_bw_Inr)
  have sK: "is_tensor3 b n' d_key (map (\<lambda>M. mm M (att_WK a)) e)"
    using e WK dm by (rule is_tensor3_matmul_bw)
  have sV: "is_tensor3 b n' d_key (map (\<lambda>M. mm M (att_WV a)) e)"
    using e WV dm by (rule is_tensor3_matmul_bw)
  have sQ: "is_tensor3 b n d_key (map (\<lambda>M. mm M (att_WQ a)) x)"
    using x WQ dm by (rule is_tensor3_matmul_bw)
  show ?thesis
    using ScaledDotProductAttention_forward_Inr[OF sQ sK sV n' dk, of "att_mask a"]
    by (auto simp: Attention_forward_def X K V Q ebind_def)
qed

lemma is_tensor3_cat2:
  assumes "is_tensor3 b n d1 T" and "is_tensor3 b n d2 U"
  shows "is_tensor3 b n (d1 + d2) (cat2 T U)"
  unfolding cat2_def
  using assms
proof (rule is_tensor3_map2)
  fix M N :: mat assume "is_mat n d1 M" "is_mat n d2 N"
  then show "is_mat n (d1 + d2) (map2 (@) M N)"
    by (intro is_matI) (simp_all add: is_mat_length is_mat_row)
qed

lemma is_tensor3_cat_list:
  "Ts \<noteq> [] \<Longrightarrow> list_all (is_tensor3 b n d) Ts \<Longrightarrow> is_tensor3 b n (length Ts * d) (cat_list Ts)"
proof (induction Ts rule: cat_list.induct)
  case 1
  then show ?case by simp
next
  case (2 T)
  then show ?case by simp
next
  case (3 T U Ts)
  then have "is_tensor3 b n (length (U # Ts) * d) (cat_list (U # Ts))" by simp
  moreover have "is_tensor3 b n d T" using 3 by simp
  ultimately have "is_tensor3 b n (d + length (U # Ts) * d) (cat2 T (cat_list (U # Ts)))"
    by (intro is_tensor3_cat2)
  then show ?case by simp
qed

lemma same_outer_tensor3:
  assumes "is_tensor3 b n d T" and "is_tensor3 b n d' U"
  shows "same_outer T U"
  unfolding same_outer_def
  using assms
  by (auto simp: list_all2_conv_all_nth is_tensor3_length is_mat_length dest!: is_tensor3_nth)

lemma cat_last_Inr:
  assumes "Ts \<noteq> []" and "list_all (is_tensor3 b n d) Ts"
  shows "cat_last Ts = Inr (cat_list Ts)"
proof -
  obtain T rest where Ts: "Ts = T # rest" using assms(1) by (cases Ts) auto
  have "list_all (same_outer T) rest"
    using assms(2) Ts by (auto simp: list_all_iff intro: same_outer_tensor3)
  then show ?thesis by (simp add: cat_last_def Ts)
qed

text \<open>
  The forward pass of a well-formed multi-head attention, step by step: the heads, their
  concatenation, the output projection.
\<close>

lemma MultiHeadAttention_forward_Inr:
  assumes m: "wf_multi_head_attention h d_model m" and x: "is_tensor3 b n d_model x"
    and e: "is_tensor3 b n' d_model e" and n': "0 < n'" and dm: "0 < d_model"
    and enc: "encoder_output = None \<and> e = x \<or> encoder_output = Some e"
  shows "\<exists>heads Z out.
           emap (\<lambda>a. Attention_forward a x encoder_output) (mha_heads m) = Inr heads \<and>
           length heads = h \<and> list_all (is_tensor3 b n (d_model div h)) heads \<and>
           cat_last heads = Inr Z \<and> is_tensor3 b n (h * (d_model div h)) Z \<and>
           is_mat (h * (d_model div h)) d_model (mha_W m) \<and>
           matmul_bw Z (mha_W m) = Inr out \<and>
           MultiHeadAttention_forward m x encoder_output = Inr out \<and>
           is_tensor3 b n d_model out"
proof -
  define dk where "dk = d_model div h"
  have h: "0 < h" and dv: "d_model mod h = 0" and lh: "length (mha_heads m) = h"
    and wh: "list_all (\<lambda>a. wf_attention d_model dk a \<and> att_mask a = mha_mask m) (mha_heads m)"
    and W: "is_mat (h * dk) d_model (mha_W m)"
    using m by (simp_all add: wf_multi_head_attention_def dk_def)
  have "h dvd d_model" using dv by (simp add: mod_eq_0_iff_dvd)
  then have hd: "h * dk = d_model" by (simp add: dk_def)
  have dk: "0 < dk" using hd dm by (cases dk) simp_all
  have "\<exists>out. Attention_forward a x encoder_output = Inr out \<and> is_tensor3 b n dk out"
    if "a \<in> set (mha_heads m)" for a
  proof -
    have "wf_attention d_model dk a" using wh that by (simp add: list_all_iff)
    then show ?thesis using x e n' dm dk enc by (rule Attention_forward_Inr)
  qed
  then obtain heads where
    heads: "emap (\<lambda>a. Attention_forward a x encoder_output) (mha_heads m) = Inr heads"
    and lheads: "length heads = length (mha_heads m)"
    and sheads: "list_all (is_tensor3 b n dk) heads"
    using emap_Inr_ex[of "mha_heads m" "\<lambda>a. Attention_forward a x encoder_output"
        "is_tensor3 b n dk"] by blast
  have ne: "heads \<noteq> []" using lheads lh h by auto
  have cat: "cat_last heads = Inr (cat_list heads)" using ne sheads by (rule cat_last_Inr)
  have Z: "is_tensor3 b n (h * dk) (cat_list heads)"
    using is_tensor3_cat_list[OF ne sheads] lheads lh by simp
  have hk: "0 < h * dk" using hd dm by simp
  have out: "matmul_bw (cat_list heads) (mha_W m) = Inr (map (\<lambda>M. mm M (mha_W m)) (cat_list heads))"
    using Z W by (rule matmul_bw_Inr)
  have sout: "is_tensor3 b n d_model (map (\<lambda>M. mm M (mha_W m)) (cat_list heads))"
    using Z W hk by (rule is_tensor3_matmul_bw)
  have fw: "MultiHeadAttention_forward m x encoder_output =
              Inr (map (\<lambda>M. mm M (mha_W m)) (cat_list heads))"
    by (simp add: MultiHeadAttention_forward_def heads cat out ebind_def)
  show ?thesis
    using heads lheads lh sheads cat Z W out fw sout unfolding dk_def by blast
qed



section \<open>Weight tying\<close>

lemma column_transpose_m:
  assumes "is_mat n d E" and "tok < n"
  shows "column (transpose_m E) tok = E ! tok"
proof -
  have n: "0 < n" using assms(2) by simp
  have len: "length (E ! tok) = d" using assms by (rule is_mat_row)
  have "column (transpose_m E) tok = map (\<lambda>j. E ! tok ! j) [0..<d]"
    using assms n by (simp add: column_def transpose_m_def is_mat_ncols is_mat_length)
  also have "\<dots> = E ! tok" using len map_nth[of "E ! tok"] by simp
  finally show ?thesis .
qed

lemma is_mat_list_update:
  assumes "is_mat n d E" and "length r = d"
  shows "is_mat n d (E[tok := r])"
proof (rule is_matI)
  show "length (E[tok := r]) = n" using assms(1) by (simp add: is_mat_length)
next
  fix i assume "i < n"
  then show "length (E[tok := r] ! i) = d"
    using assms is_mat_row[OF assms(1), of i]
    by (cases "i = tok") (simp_all add: is_mat_length)
qed

lemma ebind_Inr_D: "ebind m f = Inr r \<Longrightarrow> \<exists>a. m = Inr a \<and> f a = Inr r"
  by (cases m) (simp_all add: ebind_def)

text \<open>
  An entry of the projection: the scores of a batch element at a position hold, for each
  token, the dot product of the decoder output at that position with the row of the token
  in the matrix whose transpose is the weight.
\<close>

lemma projection_entry:
  assumes E: "is_mat n_token d E" and d: "0 < d" and X: "is_tensor3 b n d X"
    and bi: "bi < b" and i: "i < n" and tok: "tok < n_token"
  shows "\<exists>scores. matmul_bw X (transpose_m E) = Inr scores \<and> is_tensor3 b n n_token scores \<and>
           scores ! bi ! i ! tok = dot (X ! bi ! i) (E ! tok)"
proof -
  have nt: "0 < n_token" using tok by simp
  have W: "is_mat d n_token (transpose_m E)" using E nt by (rule is_mat_transpose_m)
  have mb: "matmul_bw X (transpose_m E) = Inr (map (\<lambda>M. mm M (transpose_m E)) X)"
    using X W by (rule matmul_bw_Inr)
  have sh: "is_tensor3 b n n_token (map (\<lambda>M. mm M (transpose_m E)) X)"
    using X W d by (rule is_tensor3_matmul_bw)
  have lX: "length X = b" using X by (rule is_tensor3_length)
  have Xb: "is_mat n d (X ! bi)" using X bi by (rule is_tensor3_nth)
  have "map (\<lambda>M. mm M (transpose_m E)) X ! bi ! i ! tok = mm (X ! bi) (transpose_m E) ! i ! tok"
    using bi lX by simp
  also have "\<dots> = dot (X ! bi ! i) (column (transpose_m E) tok)"
    using Xb W d i tok by (rule nth_mm)
  also have "\<dots> = dot (X ! bi ! i) (E ! tok)"
    using E tok by (simp add: column_transpose_m)
  finally show ?thesis using mb sh by blast
qed

text \<open>
  C6. The forward pass of the Transformer looks the source and the target indices up in
  the one embedding matrix of the model and, after the encoders and the decoders, multiplies
  the decoder output by the transpose of that same matrix: the score of token \<open>tok\<close> for
  batch element \<open>bi\<close> at position \<open>i\<close> is the dot product of the decoder output at
  (bi, i) with row \<open>tok\<close> of the embedding matrix, the row that looking \<open>tok\<close> up returns,
  and the result of the forward pass is the softmax of these scores. Replacing one entry
  (tok, k) of the matrix by a different value changes both the lookup of \<open>tok\<close> and column
  \<open>tok\<close> of the projection weight, each to the updated row, which differs from the old
  one; the projection of the same decoder output then has, for \<open>tok\<close>, the dot product
  with the updated row.
\<close>

theorem embedding_weight_tying:
  assumes E: "is_mat n_token d (tr_embedding t)" and d: "0 < d"
    and ex: "embed t x = Inr x'" and ey: "embed t y = Inr y'"
    and enc: "run_encoders (tr_encoders t) x' = Inr encoder_output"
    and dec: "run_decoders (tr_decoders t) y' encoder_output = Inr decoder_output"
    and sh: "is_tensor3 b n d decoder_output"
    and bi: "bi < b" and i: "i < n" and tok: "tok < n_token" and k: "k < d"
    and v: "v \<noteq> tr_embedding t ! tok ! k"
    and t': "t' = t\<lparr>tr_embedding := (tr_embedding t)[tok := (tr_embedding t ! tok)[k := v]]\<rparr>"
  shows "\<exists>ex_lookup ey_lookup scores scores'.
           Embedding_forward (tr_embedding t) x = Inr ex_lookup \<and>
           Embedding_forward (tr_embedding t) y = Inr ey_lookup \<and>
           Transformer_forward t x y = Inr (softmax scores) \<and>
           matmul_bw decoder_output (pre_softmax_weight t) = Inr scores \<and>
           is_tensor3 b n n_token scores \<and>
           scores ! bi ! i ! tok = dot (decoder_output ! bi ! i) (tr_embedding t ! tok) \<and>
           Embedding_forward (tr_embedding t) [[int tok]] = Inr [[tr_embedding t ! tok]] \<and>
           column (pre_softmax_weight t) tok = tr_embedding t ! tok \<and>
           matmul_bw decoder_output (pre_softmax_weight t') = Inr scores' \<and>
           scores' ! bi ! i ! tok = dot (decoder_output ! bi ! i) ((tr_embedding t ! tok)[k := v]) \<and>
           Embedding_forward (tr_embedding t') [[int tok]] = Inr [[(tr_embedding t ! tok)[k := v]]] \<and>
           column (pre_softmax_weight t') tok = (tr_embedding t ! tok)[k := v] \<and>
           (tr_embedding t ! tok)[k := v] \<noteq> tr_embedding t ! tok"
proof -
  let ?E = "tr_embedding t"
  have len: "length (?E ! tok) = d" using E tok by (rule is_mat_row)
  have lE: "length ?E = n_token" using E by (rule is_mat_length)
  have E': "tr_embedding t' = ?E[tok := (?E ! tok)[k := v]]" by (simp add: t')
  have sE': "is_mat n_token d (tr_embedding t')"
    unfolding E' using E len by (intro is_mat_list_update) simp_all
  have row': "tr_embedding t' ! tok = (?E ! tok)[k := v]" using tok lE by (simp add: E')
  have "((?E ! tok)[k := v]) ! k = v" using k len by simp
  then have ne: "(?E ! tok)[k := v] \<noteq> ?E ! tok" using v by metis
  have c: "column (pre_softmax_weight t) tok = ?E ! tok"
    unfolding pre_softmax_weight_def using E tok by (rule column_transpose_m)
  have "column (pre_softmax_weight t') tok = tr_embedding t' ! tok"
    unfolding pre_softmax_weight_def using sE' tok by (rule column_transpose_m)
  then have c': "column (pre_softmax_weight t') tok = (?E ! tok)[k := v]" by (simp only: row')
  have l: "Embedding_forward ?E [[int tok]] = Inr [[?E ! tok]]"
    using tok lE by (simp add: Embedding_forward_def)
  have l': "Embedding_forward (tr_embedding t') [[int tok]] = Inr [[(?E ! tok)[k := v]]]"
    using tok lE by (simp add: Embedding_forward_def E')
  obtain ex_lookup where lx: "Embedding_forward ?E x = Inr ex_lookup"
    using ebind_Inr_D[OF ex[unfolded embed_def]] by blast
  obtain ey_lookup where ly: "Embedding_forward ?E y = Inr ey_lookup"
    using ebind_Inr_D[OF ey[unfolded embed_def]] by blast
  obtain scores where s: "matmul_bw decoder_output (pre_softmax_weight t) = Inr scores"
    and ssh: "is_tensor3 b n n_token scores"
    and se: "scores ! bi ! i ! tok = dot (decoder_output ! bi ! i) (?E ! tok)"
    unfolding pre_softmax_weight_def using projection_entry[OF E d sh bi i tok] by blast
  obtain scores' where s': "matmul_bw decoder_output (pre_softmax_weight t') = Inr scores'"
    and se': "scores' ! bi ! i ! tok = dot (decoder_output ! bi ! i) ((?E ! tok)[k := v])"
    unfolding pre_softmax_weight_def using projection_entry[OF sE' d sh bi i tok] row' by auto
  have f: "Transformer_forward t x y = Inr (softmax scores)"
    by (simp add: Transformer_forward_def ex ey enc dec s ebind_def)
  show ?thesis using lx ly f s ssh se l c s' se' l' c' ne by blast
qed

theorem embedding_weight_tying_witness:
  "Transformer_forward
     \<lparr>tr_n_token = 2, tr_n_layer = 0, tr_n_head = 1, tr_d_model = 4, tr_d_ff = 1,
       tr_encoders = [], tr_decoders = [],
       tr_embedding = [[Fin 1, Fin 2, Fin 3, Fin 4], [Fin 5, Fin 6, Fin 7, Fin 8]]\<rparr> [[0]] [[1]]
     = Inr (softmax [[[Fin 146, Fin 362]]]) \<and>
   dot [Fin 10, Fin 13, Fin 14, Fin 17] [Fin 5, Fin 6, Fin 7, Fin 8] = Fin 362 \<and>
   Embedding_forward [[Fin 1, Fin 2, Fin 3, Fin 4], [Fin 5, Fin 6, Fin 7, Fin 8]] [[1]]
     = Inr [[[Fin 5, Fin 6, Fin 7, Fin 8]]] \<and>
   matmul_bw [[[Fin 10, Fin 13, Fin 14, Fin 17]]]
     (pre_softmax_weight
       \<lparr>tr_n_token = 2, tr_n_layer = 0, tr_n_head = 1, tr_d_model = 4, tr_d_ff = 1,
         tr_encoders = [], tr_decoders = [],
         tr_embedding = [[Fin 1, Fin 2, Fin 3, Fin 4], [Fin 9, Fin 6, Fin 7, Fin 8]]\<rparr>)
     = Inr [[[Fin 146, Fin 402]]] \<and>
   dot [Fin 10, Fin 13, Fin 14, Fin 17] [Fin 9, Fin 6, Fin 7, Fin 8] = Fin 402 \<and>
   Embedding_forward [[Fin 1, Fin 2, Fin 3, Fin 4], [Fin 9, Fin 6, Fin 7, Fin 8]] [[1]]
     = Inr [[[Fin 9, Fin 6, Fin 7, Fin 8]]]"
proof -
  let ?E = "[[Fin 1, Fin 2, Fin 3, Fin 4], [Fin 5, Fin 6, Fin 7, Fin 8]]"
  let ?E' = "[[Fin 1, Fin 2, Fin 3, Fin 4], [Fin 9, Fin 6, Fin 7, Fin 8]]"
  let ?t = "\<lparr>tr_n_token = 2, tr_n_layer = 0, tr_n_head = 1, tr_d_model = 4, tr_d_ff = 1,
       tr_encoders = [], tr_decoders = [], tr_embedding = ?E\<rparr>"
  let ?t' = "\<lparr>tr_n_token = 2, tr_n_layer = 0, tr_n_head = 1, tr_d_model = 4, tr_d_ff = 1,
       tr_encoders = [], tr_decoders = [], tr_embedding = ?E'\<rparr>"
  let ?x' = "[[[Fin 2, Fin 5, Fin 6, Fin 9]]]"
  let ?y' = "[[[Fin 10, Fin 13, Fin 14, Fin 17]]]"
  have E: "is_mat 2 4 (tr_embedding ?t)" by (simp add: is_mat_def)
  have ex: "embed ?t [[0]] = Inr ?x'"
    by (simp add: embed_def Embedding_forward_def mul_scalar_def add_tm_def add_m_def add_v_def
        bc_zip_def ebind_def pe_eval full_def ncols_def last_dim_def overflow_def f32_overflow_def
        upt_rec)
  have ey: "embed ?t [[1]] = Inr ?y'"
    by (simp add: embed_def Embedding_forward_def mul_scalar_def add_tm_def add_m_def add_v_def
        bc_zip_def ebind_def pe_eval full_def ncols_def last_dim_def overflow_def f32_overflow_def
        upt_rec)
  have enc: "run_encoders (tr_encoders ?t) ?x' = Inr ?x'" by simp
  have dec: "run_decoders (tr_decoders ?t) ?y' ?x' = Inr ?y'" by simp
  have sh: "is_tensor3 1 1 4 ?y'" by (simp add: is_tensor3_def is_mat_def)
  have v: "Fin 9 \<noteq> tr_embedding ?t ! 1 ! 0" by simp
  have t': "?t' = ?t\<lparr>tr_embedding := (tr_embedding ?t)[1 := (tr_embedding ?t ! 1)[0 := Fin 9]]\<rparr>"
    by simp
  obtain scores scores' where f: "Transformer_forward ?t [[0]] [[1]] = Inr (softmax scores)"
    and s: "matmul_bw ?y' (pre_softmax_weight ?t) = Inr scores"
    and e: "scores ! 0 ! 0 ! 1 = dot (?y' ! 0 ! 0) (tr_embedding ?t ! 1)"
    and l: "Embedding_forward (tr_embedding ?t) [[int 1]] = Inr [[tr_embedding ?t ! 1]]"
    and s': "matmul_bw ?y' (pre_softmax_weight ?t') = Inr scores'"
    and e': "scores' ! 0 ! 0 ! 1 = dot (?y' ! 0 ! 0) ((tr_embedding ?t ! 1)[0 := Fin 9])"
    and l': "Embedding_forward (tr_embedding ?t') [[int 1]] = Inr [[(tr_embedding ?t ! 1)[0 := Fin 9]]]"
    using embedding_weight_tying[where t = ?t and t' = ?t' and n_token = 2 and d = 4
        and b = 1 and n = 1 and bi = 0 and i = 0 and tok = 1 and k = 0 and v = "Fin 9",
        OF E _ ex ey enc dec sh _ _ _ _ v t']
    by auto
  have sc: "matmul_bw ?y' (pre_softmax_weight ?t) = Inr [[[Fin 146, Fin 362]]]"
    by (simp add: matmul_bw_def pre_softmax_weight_def sdpa_eval)
  have sc': "matmul_bw ?y' (pre_softmax_weight ?t') = Inr [[[Fin 146, Fin 402]]]"
    by (simp add: matmul_bw_def pre_softmax_weight_def sdpa_eval)
  have "scores = [[[Fin 146, Fin 362]]]" using s sc by simp
  then have 1: "Transformer_forward ?t [[0]] [[1]] = Inr (softmax [[[Fin 146, Fin 362]]])"
    and 2: "dot [Fin 10, Fin 13, Fin 14, Fin 17] [Fin 5, Fin 6, Fin 7, Fin 8] = Fin 362"
    using f e by simp_all
  have "scores' = [[[Fin 146, Fin 402]]]" using s' sc' by simp
  then have 3: "dot [Fin 10, Fin 13, Fin 14, Fin 17] [Fin 9, Fin 6, Fin 7, Fin 8] = Fin 402"
    using e' by simp
  have 4: "Embedding_forward ?E [[1]] = Inr [[[Fin 5, Fin 6, Fin 7, Fin 8]]]" using l by simp
  have 5: "Embedding_forward ?E' [[1]] = Inr [[[Fin 9, Fin 6, Fin 7, Fin 8]]]" using l' by simp
  show ?thesis using 1 2 3 4 5 sc' by simp
qed

section \<open>Shapes of the remaining layers\<close>

lemma length_affine_v: "wf_linear n_in n_out l \<Longrightarrow> length (affine_v l r) = n_out"
  by (auto simp: affine_v_def wf_linear_def dest: is_mat_length)

lemma Linear_forward_Inr:
  assumes "wf_linear n_in n_out l" and "is_tensor3 b n n_in X" and "0 < n_out"
  shows "Linear_forward l X = Inr (map (map (affine_v l)) X) \<and>
         is_tensor3 b n n_out (map (map (affine_v l)) X)"
proof -
  have nc: "ncols (lin_weight l) = n_in"
    using assms(1,3) by (auto simp: wf_linear_def intro: is_mat_ncols)
  have "linear_v l r = Inr (affine_v l r)" if "M \<in> set X" and "r \<in> set M" for M r
  proof -
    have "is_mat n n_in M" using assms(2) that(1) by (rule is_tensor3_set)
    then have "length r = n_in" using that(2) by (simp add: is_mat_def list_all_iff)
    then show ?thesis by (simp add: linear_v_def nc)
  qed
  then have "Linear_forward l X = Inr (map (map (affine_v l)) X)"
    unfolding Linear_forward_def by (intro emap_Inr_map) simp
  moreover have "is_tensor3 b n n_out (map (map (affine_v l)) X)"
    using assms(2)
    by (rule is_tensor3_map) (erule is_mat_map_rows, simp add: length_affine_v[OF assms(1)])
  ultimately show ?thesis by simp
qed

lemma is_tensor3_ReLU: "is_tensor3 b n d X \<Longrightarrow> is_tensor3 b n d (ReLU_forward X)"
  unfolding ReLU_forward_def
  by (erule is_tensor3_map) (erule is_mat_map_rows, simp)

lemma FeedForwardNetwork_forward_Inr:
  assumes "wf_feed_forward_network d_model d_ff f" and "is_tensor3 b n d_model x"
    and "0 < d_model" and "0 < d_ff"
  shows "\<exists>out. FeedForwardNetwork_forward f x = Inr out \<and> is_tensor3 b n d_model out"
proof -
  have l1: "wf_linear d_model d_ff (ffn_linear1 f)" and l2: "wf_linear d_ff d_model (ffn_linear2 f)"
    using assms(1) by (simp_all add: wf_feed_forward_network_def)
  note h = Linear_forward_Inr[OF l1 assms(2,4)]
  have r: "is_tensor3 b n d_ff (ReLU_forward (map (map (affine_v (ffn_linear1 f))) x))"
    using h by (intro is_tensor3_ReLU) simp
  note o = Linear_forward_Inr[OF l2 r assms(3)]
  show ?thesis using h o by (simp add: FeedForwardNetwork_forward_def ebind_def)
qed

lemma length_normalize_v:
  "wf_layer_norm d l \<Longrightarrow> length r = d \<Longrightarrow> length (normalize_v l r) = d"
  by (simp add: normalize_v_def Let_def wf_layer_norm_def)

lemma LayerNorm_forward_Inr:
  assumes "wf_layer_norm d l" and "is_tensor3 b n d X"
  shows "LayerNorm_forward l X = Inr (map (map (normalize_v l)) X) \<and>
         is_tensor3 b n d (map (map (normalize_v l)) X)"
proof -
  have "layer_norm_v l r = Inr (normalize_v l r)" if "M \<in> set X" and "r \<in> set M" for M r
  proof -
    have "is_mat n d M" using assms(2) that(1) by (rule is_tensor3_set)
    then have "length r = d" using that(2) by (simp add: is_mat_def list_all_iff)
    then show ?thesis using assms(1) by (simp add: layer_norm_v_def wf_layer_norm_def)
  qed
  then have "LayerNorm_forward l X = Inr (map (map (normalize_v l)) X)"
    unfolding LayerNorm_forward_def by (intro emap_Inr_map) simp
  moreover have "is_tensor3 b n d (map (map (normalize_v l)) X)"
    using assms(2)
    by (rule is_tensor3_map) (erule is_mat_map_rows, simp add: length_normalize_v[OF assms(1)])
  ultimately show ?thesis by simp
qed

lemma add_v_Inr: "length u = length v \<Longrightarrow> add_v u v = Inr (map2 fadd u v)"
  unfolding add_v_def by (rule bc_zip_same_length) simp_all

lemma add_m_Inr:
  assumes "is_mat n d A" and "is_mat n d B"
  shows "add_m A B = Inr (map2 (map2 fadd) A B)"
  unfolding add_m_def
proof (rule bc_zip_same_length)
  show "length A = length B" using assms by (simp add: is_mat_length)
next
  fix i assume "i < length A"
  then have "i < n" using assms by (simp add: is_mat_length)
  then show "add_v (A ! i) (B ! i) = Inr (map2 fadd (A ! i) (B ! i))"
    using assms by (intro add_v_Inr) (simp add: is_mat_row)
qed

lemma is_mat_add: "is_mat n d A \<Longrightarrow> is_mat n d B \<Longrightarrow> is_mat n d (map2 (map2 fadd) A B)"
  by (rule is_matI) (simp_all add: is_mat_length is_mat_row)

lemma add_t_Inr:
  assumes "is_tensor3 b n d X" and "is_tensor3 b n d Y"
  shows "add_t X Y = Inr (map2 (map2 (map2 fadd)) X Y) \<and>
         is_tensor3 b n d (map2 (map2 (map2 fadd)) X Y)"
proof -
  have "add_t X Y = Inr (map2 (map2 (map2 fadd)) X Y)"
    unfolding add_t_def
  proof (rule bc_zip_same_length)
    show "length X = length Y" using assms by (simp add: is_tensor3_length)
  next
    fix i assume "i < length X"
    then have "i < b" using assms by (simp add: is_tensor3_length)
    then show "add_m (X ! i) (Y ! i) = Inr (map2 (map2 fadd) (X ! i) (Y ! i))"
      using assms by (intro add_m_Inr) (auto dest: is_tensor3_nth)
  qed
  moreover have "is_tensor3 b n d (map2 (map2 (map2 fadd)) X Y)"
    using assms by (rule is_tensor3_map2) (rule is_mat_add)
  ultimately show ?thesis by simp
qed

text \<open>One residual sum and normalisation, as the encoder and the decoder write it.\<close>

lemma residual_norm:
  assumes f: "is_tensor3 b n d f" and x: "is_tensor3 b n d x" and l: "wf_layer_norm d l"
  shows "\<exists>s y. add_t f x = Inr s \<and> LayerNorm_forward l s = Inr y \<and> is_tensor3 b n d y \<and>
           (\<forall>bi<b. \<forall>i<n. y ! bi ! i = normalize_v l (map2 fadd (f ! bi ! i) (x ! bi ! i)))"
proof -
  define s where "s = map2 (map2 (map2 fadd)) f x"
  have s: "add_t f x = Inr s" and ss: "is_tensor3 b n d s"
    using add_t_Inr[OF f x] by (simp_all add: s_def)
  define y where "y = map (map (normalize_v l)) s"
  have y: "LayerNorm_forward l s = Inr y" and sy: "is_tensor3 b n d y"
    using LayerNorm_forward_Inr[OF l ss] by (simp_all add: y_def)
  have "y ! bi ! i = normalize_v l (map2 fadd (f ! bi ! i) (x ! bi ! i))" if "bi < b" "i < n" for bi i
  proof -
    have "length (f ! bi) = n" "length (x ! bi) = n"
      using f x that(1) by (auto dest!: is_tensor3_nth simp: is_mat_length)
    then show ?thesis
      using that f x by (simp add: y_def s_def is_tensor3_length)
  qed
  then show ?thesis using s y sy by blast
qed


section \<open>The sublayer wrapper\<close>

text \<open>
  C7. The sublayer wrapper returns the normalisation of \<open>x + L(x)\<close>: the residual sum is
  formed first and normalised second, and an error of \<open>L\<close>, of the sum or of the
  normalisation is the error of the wrapper. For an input \<open>x\<close> of shape (b, n, d) on
  which \<open>L\<close> returns a tensor \<open>f\<close> of that shape, the wrapper succeeds and its output at
  every position is the normalisation of the feature vector of \<open>x\<close> plus the feature
  vector of \<open>f\<close>, entry by entry. Where \<open>f\<close> is the zero tensor and \<open>x\<close> holds float32
  values (\<open>float_t\<close>: every finite entry below the overflow threshold, as in every
  tensor of the program), the output is exactly the normalisation of \<open>x\<close>.
\<close>

theorem sublayer_residual_then_normalize:
  assumes x: "is_tensor3 b n d x" and Lx: "L x = Inr f" and f: "is_tensor3 b n d f"
    and nrm: "wf_layer_norm d nrm"
  shows "Sublayer_forward L nrm x = ebind (L x) (\<lambda>f_x. ebind (add_t x f_x) (LayerNorm_forward nrm)) \<and>
         (\<exists>y. Sublayer_forward L nrm x = Inr y \<and> is_tensor3 b n d y \<and>
           (\<forall>bi<b. \<forall>i<n. y ! bi ! i = normalize_v nrm (map2 fadd (x ! bi ! i) (f ! bi ! i)))) \<and>
         (f = zeros_like x \<and> float_t x \<longrightarrow> Sublayer_forward L nrm x = LayerNorm_forward nrm x)"
proof -
  have eq: "Sublayer_forward L nrm x = ebind (L x) (\<lambda>f_x. ebind (add_t x f_x) (LayerNorm_forward nrm))"
    by (simp add: Sublayer_forward_def Residual_Connection_forward_def ebind_def split: sum.splits)
  define s where "s = map2 (map2 (map2 fadd)) x f"
  have s: "add_t x f = Inr s" and ss: "is_tensor3 b n d s"
    using add_t_Inr[OF x f] by (simp_all add: s_def)
  define y where "y = map (map (normalize_v nrm)) s"
  have y: "LayerNorm_forward nrm s = Inr y" and sy: "is_tensor3 b n d y"
    using LayerNorm_forward_Inr[OF nrm ss] by (simp_all add: y_def)
  have fw: "Sublayer_forward L nrm x = Inr y"
    by (simp add: eq Lx s y ebind_def)
  have rows: "y ! bi ! i = normalize_v nrm (map2 fadd (x ! bi ! i) (f ! bi ! i))"
    if "bi < b" "i < n" for bi i
  proof -
    have "length (f ! bi) = n" "length (x ! bi) = n"
      using f x that(1) by (auto dest!: is_tensor3_nth simp: is_mat_length)
    then show ?thesis
      using that f x by (simp add: y_def s_def is_tensor3_length)
  qed
  have zero: "Sublayer_forward L nrm x = LayerNorm_forward nrm x"
    if "f = zeros_like x" "float_t x"
    using that by (simp add: eq Lx ebind_def add_t_zeros)
  show ?thesis using eq fw sy rows zero by blast
qed

theorem sublayer_residual_then_normalize_witness:
  "(\<exists>y. Sublayer_forward (\<lambda>x. Inr [[[Fin 1, Fin 1], [Fin 0, Fin 2]]])
          \<lparr>ln_weight = [Fin 1, Fin 1], ln_bias = [Fin 0, Fin 0]\<rparr>
          [[[Fin 1, Fin 3], [Fin 2, Fin 2]]] = Inr y \<and>
        y ! 0 ! 0 = normalize_v \<lparr>ln_weight = [Fin 1, Fin 1], ln_bias = [Fin 0, Fin 0]\<rparr> [Fin 2, Fin 4] \<and>
        y ! 0 ! 1 = normalize_v \<lparr>ln_weight = [Fin 1, Fin 1], ln_bias = [Fin 0, Fin 0]\<rparr> [Fin 2, Fin 4]) \<and>
   Sublayer_forward (\<lambda>x. Inr (zeros_like x))
      \<lparr>ln_weight = [Fin 1, Fin 1], ln_bias = [Fin 0, Fin 0]\<rparr> [[[Fin 1, Fin 3], [Fin 2, Fin 2]]]
     = LayerNorm_forward
         \<lparr>ln_weight = [Fin 1, Fin 1], ln_bias = [Fin 0, Fin 0]\<rparr> [[[Fin 1, Fin 3], [Fin 2, Fin 2]]]"
proof -
  let ?N = "\<lparr>ln_weight = [Fin 1, Fin 1], ln_bias = [Fin 0, Fin 0]\<rparr>"
  let ?x = "[[[Fin 1, Fin 3], [Fin 2, Fin 2]]]"
  let ?f = "[[[Fin 1, Fin 1], [Fin 0, Fin 2]]]"
  have x: "is_tensor3 1 2 2 ?x" and f: "is_tensor3 1 2 2 ?f" and z: "is_tensor3 1 2 2 (zeros_like ?x)"
    by (simp_all add: is_tensor3_def is_mat_def zeros_like_def)
  have N: "wf_layer_norm 2 ?N" by (simp add: wf_layer_norm_def)
  have fl: "float_t ?x" by (simp add: float_t_def f32_overflow_def)
  obtain y where y: "Sublayer_forward (\<lambda>x. Inr ?f) ?N ?x = Inr y"
    and rows: "\<forall>bi<1. \<forall>i<2. y ! bi ! i = normalize_v ?N (map2 fadd (?x ! bi ! i) (?f ! bi ! i))"
    using sublayer_residual_then_normalize[where L = "\<lambda>x. Inr ?f", OF x refl f N] by blast
  have r0: "y ! 0 ! 0 = normalize_v ?N [Fin 2, Fin 4]"
    using rows by (simp add: overflow_def f32_overflow_def)
  have r1: "y ! 0 ! 1 = normalize_v ?N [Fin 2, Fin 4]"
    using rows by (simp add: overflow_def f32_overflow_def)
  have "Sublayer_forward (\<lambda>x. Inr (zeros_like x)) ?N ?x = LayerNorm_forward ?N ?x"
    using sublayer_residual_then_normalize[where L = "\<lambda>x. Inr (zeros_like x)", OF x refl z N] fl
    by blast
  then show ?thesis using y r0 r1 by blast
qed

section \<open>Infinities and NaN through sums and normalisation\<close>

lemma not_fin_inf_signed: "\<not> is_fin (inf_signed a)"
  by (simp add: inf_signed_def)

lemma not_fin_fadd: "\<not> is_fin a \<or> \<not> is_fin b \<Longrightarrow> \<not> is_fin (fadd a b)"
  by (cases a; cases b) simp_all

lemma not_fin_fneg: "\<not> is_fin a \<Longrightarrow> \<not> is_fin (fneg a)"
  by (cases a) simp_all

lemma not_fin_fsub: "\<not> is_fin b \<Longrightarrow> \<not> is_fin (fsub a b)"
  by (simp add: fsub_def not_fin_fadd not_fin_fneg)

lemma not_fin_fmul: "\<not> is_fin a \<or> \<not> is_fin b \<Longrightarrow> \<not> is_fin (fmul a b)"
  by (cases a; cases b) (simp_all add: not_fin_inf_signed)

lemma not_fin_fdiv_Fin: "\<not> is_fin a \<Longrightarrow> \<not> is_fin (fdiv a (Fin c))"
  by (cases a) simp_all

lemma not_fin_fsum: "\<exists>x\<in>set xs. \<not> is_fin x \<Longrightarrow> \<not> is_fin (fsum xs)"
  by (induction xs) (auto simp: not_fin_fadd)

lemma not_fin_dot:
  assumes "length u = length v" and "c < length u" and "\<not> is_fin (u ! c)"
  shows "\<not> is_fin (dot u v)"
proof -
  have "map2 fmul u v ! c \<in> set (map2 fmul u v)" using assms(1,2) by (intro nth_mem) simp
  moreover have "\<not> is_fin (map2 fmul u v ! c)" using assms by (simp add: not_fin_fmul)
  ultimately show ?thesis unfolding dot_def by (intro not_fin_fsum) blast
qed

lemma square_not_fin: "\<not> is_fin u \<Longrightarrow> fmul u u = PInf \<or> fmul u u = NaN"
  by (cases u) simp_all

lemma fsum_inf_or_nan:
  "xs \<noteq> [] \<Longrightarrow> \<forall>x\<in>set xs. x = PInf \<or> x = NaN \<Longrightarrow> fsum xs = PInf \<or> fsum xs = NaN"
proof (induction xs)
  case Nil
  then show ?case by simp
next
  case (Cons x xs)
  show ?case
  proof (cases "xs = []")
    case True
    then show ?thesis using Cons.prems by auto
  next
    case False
    then have "fsum xs = PInf \<or> fsum xs = NaN" using Cons by simp
    moreover have "x = PInf \<or> x = NaN" using Cons.prems by simp
    ultimately show ?thesis by auto
  qed
qed

lemma fdiv_inf_or_nan: "v = PInf \<or> v = NaN \<Longrightarrow> 0 < c \<Longrightarrow> fdiv v (Fin c) = PInf \<or> fdiv v (Fin c) = NaN"
  by auto

lemma fsqrt_eps_inf_or_nan:
  "v = PInf \<or> v = NaN \<Longrightarrow> fsqrt (fadd v ln_eps) = PInf \<or> fsqrt (fadd v ln_eps) = NaN"
  by (auto simp: ln_eps_def)

lemma fdiv_by_inf_or_nan: "\<not> is_fin u \<Longrightarrow> s = PInf \<or> s = NaN \<Longrightarrow> fdiv u s = NaN"
  by (cases u) auto

lemma map_const_replicate: "(\<And>x. x \<in> set xs \<Longrightarrow> f x = c) \<Longrightarrow> map f xs = replicate (length xs) c"
  by (induction xs) simp_all

text \<open>
  A feature vector with an entry that is not finite is normalised to NaN in every
  feature: its mean is not finite, so no deviation from the mean is, the variance is
  infinite or NaN, and every quotient is NaN.
\<close>

lemma normalize_v_not_fin:
  assumes l: "wf_layer_norm d l" and r: "length r = d" and c: "c < d" and nf: "\<not> is_fin (r ! c)"
  shows "normalize_v l r = replicate d NaN"
proof -
  define mean where "mean = fmean r"
  define var where "var = fmean (map (\<lambda>x. fmul (fsub x mean) (fsub x mean)) r)"
  define std where "std = fsqrt (fadd var ln_eps)"
  have ne: "r \<noteq> []" using r c by auto
  have "r ! c \<in> set r" using r c by simp
  then have "\<not> is_fin (fsum r)" using nf by (intro not_fin_fsum) blast
  then have mean: "\<not> is_fin mean" by (simp add: mean_def fmean_def not_fin_fdiv_Fin)
  have dev: "\<not> is_fin (fsub x mean)" for x using mean by (rule not_fin_fsub)
  have "fsum (map (\<lambda>x. fmul (fsub x mean) (fsub x mean)) r) = PInf \<or>
        fsum (map (\<lambda>x. fmul (fsub x mean) (fsub x mean)) r) = NaN"
    using ne dev by (intro fsum_inf_or_nan) (auto simp: square_not_fin)
  then have "var = PInf \<or> var = NaN"
    unfolding var_def fmean_def using ne by (intro fdiv_inf_or_nan) simp_all
  then have std: "std = PInf \<or> std = NaN" unfolding std_def by (rule fsqrt_eps_inf_or_nan)
  have q: "fdiv (fsub x mean) std = NaN" for x using dev std by (rule fdiv_by_inf_or_nan)
  have "normalize_v l r =
          map (\<lambda>(x, g, b). fadd (fmul (fdiv (fsub x mean) std) g) b)
            (zip r (zip (ln_weight l) (ln_bias l)))"
    by (simp add: normalize_v_def Let_def mean_def var_def std_def)
  also have "\<dots> = replicate (length (zip r (zip (ln_weight l) (ln_bias l)))) NaN"
    by (rule map_const_replicate) (auto simp: q)
  also have "\<dots> = replicate d NaN" using l r by (simp add: wf_layer_norm_def)
  finally show ?thesis .
qed

lemma residual_row_nan:
  assumes l: "wf_layer_norm d l" and fr: "length fr = d" and xr: "length xr = d"
    and c: "c < d" and nf: "\<not> is_fin (fr ! c) \<or> \<not> is_fin (xr ! c)"
  shows "normalize_v l (map2 fadd fr xr) = replicate d NaN"
proof -
  have "\<not> is_fin (map2 fadd fr xr ! c)" using fr xr c nf by (simp add: not_fin_fadd)
  moreover have "length (map2 fadd fr xr) = d" using fr xr by simp
  ultimately show ?thesis using l c by (intro normalize_v_not_fin)
qed

lemma dot_nan_row: "0 < d \<Longrightarrow> length v = d \<Longrightarrow> dot (replicate d NaN) v = NaN"
  by (cases d; cases v) (simp_all add: dot_def)

lemma softmax_v_nan: "0 < d \<Longrightarrow> softmax_v (replicate d NaN) = replicate d NaN"
  by (cases d) (simp_all add: softmax_v_def Let_def fsub_def)

section \<open>The masked attention of the decoder\<close>

lemma emap_Inr_nth:
  "emap f xs = Inr ys \<Longrightarrow> j < length xs \<Longrightarrow> f (xs ! j) = Inr (ys ! j)"
proof (induction xs arbitrary: ys j)
  case Nil
  then show ?case by simp
next
  case (Cons x xs)
  then show ?case by (cases j) (auto split: sum.splits)
qed

lemma not_fin_fmul_NInf: "\<not> is_fin (fmul v NInf)"
  by (rule not_fin_fmul) simp

text \<open>
  A head with the mask flag set returns a value that is not finite wherever the feature
  column exceeds the position.
\<close>

lemma attention_masked_not_fin:
  assumes a: "wf_attention d_model d_key a" and mask: "att_mask a"
    and x: "is_tensor3 b n d_model x" and n: "0 < n" and dm: "0 < d_model"
    and bi: "bi < b" and i: "i < n" and c: "c < d_key" and ic: "i + 1 \<le> c"
  shows "\<exists>out. Attention_forward a x None = Inr out \<and> \<not> is_fin (out ! bi ! i ! c)"
proof -
  have dk: "0 < d_key" using c by simp
  have WK: "is_mat d_model d_key (att_WK a)" and WQ: "is_mat d_model d_key (att_WQ a)"
    and WV: "is_mat d_model d_key (att_WV a)" using a by (simp_all add: wf_attention_def)
  define K where "K = map (\<lambda>M. mm M (att_WK a)) x"
  define V where "V = map (\<lambda>M. mm M (att_WV a)) x"
  define Q where "Q = map (\<lambda>M. mm M (att_WQ a)) x"
  have K: "matmul_bw x (att_WK a) = Inr K" unfolding K_def using x WK by (rule matmul_bw_Inr)
  have V: "matmul_bw x (att_WV a) = Inr V" unfolding V_def using x WV by (rule matmul_bw_Inr)
  have Q: "matmul_bw x (att_WQ a) = Inr Q" unfolding Q_def using x WQ by (rule matmul_bw_Inr)
  have sK: "is_tensor3 b n d_key K" unfolding K_def using x WK dm by (rule is_tensor3_matmul_bw)
  have sV: "is_tensor3 b n d_key V" unfolding V_def using x WV dm by (rule is_tensor3_matmul_bw)
  have sQ: "is_tensor3 b n d_key Q" unfolding Q_def using x WQ dm by (rule is_tensor3_matmul_bw)
  obtain out out' where "ScaledDotProductAttention_forward True Q K V = Inr out'"
    and "out' ! bi ! i ! c = fmul (out ! bi ! i ! c) (if i + 1 \<le> c then NInf else Fin 1)"
    using sdpa_masked_entries[OF sQ sK sV n dk bi i c] by blast
  then show ?thesis
    using ic mask by (simp add: Attention_forward_def K V Q ebind_def not_fin_fmul_NInf)
qed

lemma cat_list_first:
  assumes "list_all (is_tensor3 b n d) (T # rest)" and "bi < b" and "i < n" and "c < d"
  shows "cat_list (T # rest) ! bi ! i ! c = T ! bi ! i ! c"
proof (cases rest)
  case Nil
  then show ?thesis by simp
next
  case (Cons U Us)
  have T: "is_tensor3 b n d T" using assms(1) by simp
  have R: "is_tensor3 b n (length rest * d) (cat_list rest)"
    using assms(1) Cons by (intro is_tensor3_cat_list) simp_all
  have "length (T ! bi) = n" "length (cat_list rest ! bi) = n" "length (T ! bi ! i) = d"
    using T R assms(2,3) by (auto dest!: is_tensor3_nth simp: is_mat_length is_mat_row)
  then show ?thesis
    using Cons T R assms(2-4) by (simp add: cat2_def is_tensor3_length nth_append)
qed

lemma mha_masked_not_fin:
  assumes m: "wf_multi_head_attention h d_model m" and mask: "mha_mask m"
    and x: "is_tensor3 b n d_model x" and n: "0 < n" and dm: "0 < d_model"
    and bi: "bi < b" and i: "i < n" and ik: "i + 2 \<le> d_model div h" and j: "j < d_model"
  shows "\<exists>out. MultiHeadAttention_forward m x None = Inr out \<and> is_tensor3 b n d_model out \<and>
           \<not> is_fin (out ! bi ! i ! j)"
proof -
  define dk where "dk = d_model div h"
  have enc: "(None :: tensor3 option) = None \<and> x = x \<or> None = Some x" by simp
  obtain heads Z out where
    heads: "emap (\<lambda>a. Attention_forward a x None) (mha_heads m) = Inr heads"
    and lh: "length heads = h" and sh: "list_all (is_tensor3 b n dk) heads"
    and Z: "is_tensor3 b n (h * dk) Z" and cat: "cat_last heads = Inr Z"
    and W: "is_mat (h * dk) d_model (mha_W m)"
    and out: "matmul_bw Z (mha_W m) = Inr out"
    and fw: "MultiHeadAttention_forward m x None = Inr out"
    and so: "is_tensor3 b n d_model out"
    using MultiHeadAttention_forward_Inr[OF m x x n dm enc] unfolding dk_def by blast
  have h: "0 < h" and lm: "length (mha_heads m) = h"
    and wh: "list_all (\<lambda>a. wf_attention d_model dk a \<and> att_mask a = mha_mask m) (mha_heads m)"
    using m by (simp_all add: wf_multi_head_attention_def dk_def)
  have c: "i + 1 < dk" using ik by (simp add: dk_def)
  have a0: "wf_attention d_model dk (mha_heads m ! 0)" "att_mask (mha_heads m ! 0)"
    using wh h lm mask by (simp_all add: list_all_length)
  obtain o0 where "Attention_forward (mha_heads m ! 0) x None = Inr o0"
    and "\<not> is_fin (o0 ! bi ! i ! (i + 1))"
    using attention_masked_not_fin[OF a0 x n dm bi i c] by auto
  moreover have "Attention_forward (mha_heads m ! 0) x None = Inr (heads ! 0)"
    using heads h lm by (intro emap_Inr_nth) simp_all
  ultimately have nf0: "\<not> is_fin (heads ! 0 ! bi ! i ! (i + 1))" by simp
  obtain T rest where hs: "heads = T # rest" using lh h by (cases heads) auto
  have "cat_last heads = Inr (cat_list heads)"
    using sh by (intro cat_last_Inr) (simp_all add: hs)
  then have Zc: "Z = cat_list heads" using cat by simp
  have "Z ! bi ! i ! (i + 1) = T ! bi ! i ! (i + 1)"
    unfolding Zc hs using sh bi i c by (intro cat_list_first) (simp_all add: hs)
  then have nfZ: "\<not> is_fin (Z ! bi ! i ! (i + 1))" using nf0 by (simp add: hs)
  have hk: "0 < h * dk" using h c by simp
  have "matmul_bw Z (mha_W m) = Inr (map (\<lambda>M. mm M (mha_W m)) Z)"
    using Z W by (rule matmul_bw_Inr)
  then have oe: "out = map (\<lambda>M. mm M (mha_W m)) Z" using out by simp
  have Zb: "is_mat n (h * dk) (Z ! bi)" using Z bi by (rule is_tensor3_nth)
  have "out ! bi ! i ! j = dot (Z ! bi ! i) (column (mha_W m) j)"
    unfolding oe using Z bi Zb W hk i j by (simp add: is_tensor3_length nth_mm)
  moreover have "length (Z ! bi ! i) = h * dk" using Zb i by (rule is_mat_row)
  moreover have "length (column (mha_W m) j) = h * dk"
    using W by (simp add: column_def is_mat_length)
  moreover have "i + 1 < h * dk" using c h by (metis One_nat_def Suc_leI less_le_trans mult.commute mult_le_mono2 nat_mult_1_right)
  ultimately have "\<not> is_fin (out ! bi ! i ! j)"
    using nfZ by (simp add: not_fin_dot[where c = "i + 1"])
  then show ?thesis using fw so by blast
qed

section \<open>Encoder and decoder layers and stacks\<close>

lemma Encoder_forward_shape:
  assumes e: "wf_encoder h d_model d_ff e" and x: "is_tensor3 b n d_model x"
    and n: "0 < n" and dm: "0 < d_model" and df: "0 < d_ff"
  shows "\<exists>out. Encoder_forward e x = Inr out \<and> is_tensor3 b n d_model out"
proof -
  have m: "wf_multi_head_attention h d_model (enc_attention e)"
    and f: "wf_feed_forward_network d_model d_ff (enc_feed_forward e)"
    and l1: "wf_layer_norm d_model (enc_layer_norm1 e)"
    and l2: "wf_layer_norm d_model (enc_layer_norm2 e)"
    using e by (simp_all add: wf_encoder_def)
  have enc: "(None :: tensor3 option) = None \<and> x = x \<or> None = Some x" by simp
  obtain a where a: "MultiHeadAttention_forward (enc_attention e) x None = Inr a"
    and sa: "is_tensor3 b n d_model a"
    using MultiHeadAttention_forward_Inr[OF m x x n dm enc] by blast
  obtain s1 x1 where s1: "add_t a x = Inr s1" and x1: "LayerNorm_forward (enc_layer_norm1 e) s1 = Inr x1"
    and sx1: "is_tensor3 b n d_model x1"
    using residual_norm[OF sa x l1] by blast
  obtain sc where sc: "FeedForwardNetwork_forward (enc_feed_forward e) x1 = Inr sc"
    and ssc: "is_tensor3 b n d_model sc"
    using FeedForwardNetwork_forward_Inr[OF f sx1 dm df] by blast
  obtain s2 x2 where s2: "add_t sc x1 = Inr s2" and x2: "LayerNorm_forward (enc_layer_norm2 e) s2 = Inr x2"
    and sx2: "is_tensor3 b n d_model x2"
    using residual_norm[OF ssc sx1 l2] by blast
  show ?thesis
    using a s1 x1 sc s2 x2 sx2 by (simp add: Encoder_forward_def ebind_def)
qed

lemma run_encoders_shape:
  assumes "list_all (wf_encoder h d_model d_ff) es" and "is_tensor3 b n d_model x"
    and "0 < n" and "0 < d_model" and "0 < d_ff"
  shows "\<exists>out. run_encoders es x = Inr out \<and> is_tensor3 b n d_model out"
  using assms
proof (induction es arbitrary: x)
  case Nil
  then show ?case by simp
next
  case (Cons e es)
  then obtain x1 where "Encoder_forward e x = Inr x1" and "is_tensor3 b n d_model x1"
    using Encoder_forward_shape[of h d_model d_ff e b n x] by auto
  then show ?case using Cons by (simp add: ebind_def)
qed

text \<open>
  One decoder layer. It succeeds and keeps the shape of its input. Its output is NaN in
  every feature at each position \<open>i\<close> with \<open>i + 2 \<le> d_key\<close>, where the masked attention
  has put an infinity or a NaN into every head, and at each position where the input was
  NaN already: the residual sums carry either into the normalisations, which return NaN.
\<close>

lemma Decoder_forward_nan:
  assumes d: "wf_decoder h d_model d_ff d" and x: "is_tensor3 b n d_model x"
    and e: "is_tensor3 b n' d_model e"
    and n: "0 < n" and n': "0 < n'" and dm: "0 < d_model" and df: "0 < d_ff"
  shows "\<exists>out. Decoder_forward d x e = Inr out \<and> is_tensor3 b n d_model out \<and>
           (\<forall>bi<b. \<forall>i<n. i + 2 \<le> d_model div h \<or> x ! bi ! i = replicate d_model NaN \<longrightarrow>
              out ! bi ! i = replicate d_model NaN)"
proof -
  have m1: "wf_multi_head_attention h d_model (dec_masked_attention d)"
    and mk: "mha_mask (dec_masked_attention d)"
    and m2: "wf_multi_head_attention h d_model (dec_attention d)"
    and f: "wf_feed_forward_network d_model d_ff (dec_feedforward d)"
    and l1: "wf_layer_norm d_model (dec_layer_norm1 d)"
    and l2: "wf_layer_norm d_model (dec_layer_norm2 d)"
    and l3: "wf_layer_norm d_model (dec_layer_norm3 d)"
    using d by (simp_all add: wf_decoder_def)
  have enc: "(None :: tensor3 option) = None \<and> x = x \<or> None = Some x" by simp
  obtain a where a: "MultiHeadAttention_forward (dec_masked_attention d) x None = Inr a"
    and sa: "is_tensor3 b n d_model a"
    using MultiHeadAttention_forward_Inr[OF m1 x x n dm enc] by blast
  obtain s1 x1 where s1: "add_t a x = Inr s1"
    and x1: "LayerNorm_forward (dec_layer_norm1 d) s1 = Inr x1"
    and sx1: "is_tensor3 b n d_model x1"
    and v1: "\<forall>bi<b. \<forall>i<n. x1 ! bi ! i =
               normalize_v (dec_layer_norm1 d) (map2 fadd (a ! bi ! i) (x ! bi ! i))"
    using residual_norm[OF sa x l1] by blast
  have enc2: "Some e = None \<and> e = x1 \<or> Some e = Some e" by simp
  obtain c where c: "MultiHeadAttention_forward (dec_attention d) x1 (Some e) = Inr c"
    and sc: "is_tensor3 b n d_model c"
    using MultiHeadAttention_forward_Inr[OF m2 sx1 e n' dm enc2] by blast
  obtain s2 x2 where s2: "add_t c x1 = Inr s2"
    and x2: "LayerNorm_forward (dec_layer_norm2 d) s2 = Inr x2"
    and sx2: "is_tensor3 b n d_model x2"
    and v2: "\<forall>bi<b. \<forall>i<n. x2 ! bi ! i =
               normalize_v (dec_layer_norm2 d) (map2 fadd (c ! bi ! i) (x1 ! bi ! i))"
    using residual_norm[OF sc sx1 l2] by blast
  obtain g where g: "FeedForwardNetwork_forward (dec_feedforward d) x2 = Inr g"
    and sg: "is_tensor3 b n d_model g"
    using FeedForwardNetwork_forward_Inr[OF f sx2 dm df] by blast
  obtain s3 x3 where s3: "add_t g x2 = Inr s3"
    and x3: "LayerNorm_forward (dec_layer_norm3 d) s3 = Inr x3"
    and sx3: "is_tensor3 b n d_model x3"
    and v3: "\<forall>bi<b. \<forall>i<n. x3 ! bi ! i =
               normalize_v (dec_layer_norm3 d) (map2 fadd (g ! bi ! i) (x2 ! bi ! i))"
    using residual_norm[OF sg sx2 l3] by blast
  have fw: "Decoder_forward d x e = Inr x3"
    using a s1 x1 c s2 x2 g s3 x3 by (simp add: Decoder_forward_def ebind_def)
  have row: "length (t ! bi ! i) = d_model" if "is_tensor3 b n d_model t" "bi < b" "i < n" for t bi i
    using that by (auto dest!: is_tensor3_nth simp: is_mat_row)
  have nan: "x3 ! bi ! i = replicate d_model NaN"
    if bi: "bi < b" and i: "i < n"
      and hyp: "i + 2 \<le> d_model div h \<or> x ! bi ! i = replicate d_model NaN" for bi i
  proof -
    have "\<not> is_fin (a ! bi ! i ! 0) \<or> \<not> is_fin (x ! bi ! i ! 0)"
    proof (cases "i + 2 \<le> d_model div h")
      case True
      obtain a' where "MultiHeadAttention_forward (dec_masked_attention d) x None = Inr a'"
        and "\<not> is_fin (a' ! bi ! i ! 0)"
        using mha_masked_not_fin[OF m1 mk x n dm bi i True dm] by blast
      then show ?thesis using a by simp
    next
      case False
      then have "x ! bi ! i = replicate d_model NaN" using hyp by simp
      then show ?thesis using dm by simp
    qed
    then have "normalize_v (dec_layer_norm1 d) (map2 fadd (a ! bi ! i) (x ! bi ! i))
                 = replicate d_model NaN"
      using l1 row[OF sa bi i] row[OF x bi i] dm by (intro residual_row_nan[where c = 0])
    then have n1: "x1 ! bi ! i = replicate d_model NaN" using v1 bi i by simp
    then have "\<not> is_fin (c ! bi ! i ! 0) \<or> \<not> is_fin (x1 ! bi ! i ! 0)" using dm by simp
    then have "normalize_v (dec_layer_norm2 d) (map2 fadd (c ! bi ! i) (x1 ! bi ! i))
                 = replicate d_model NaN"
      using l2 row[OF sc bi i] row[OF sx1 bi i] dm by (intro residual_row_nan[where c = 0])
    then have n2: "x2 ! bi ! i = replicate d_model NaN" using v2 bi i by simp
    then have "\<not> is_fin (g ! bi ! i ! 0) \<or> \<not> is_fin (x2 ! bi ! i ! 0)" using dm by simp
    then have "normalize_v (dec_layer_norm3 d) (map2 fadd (g ! bi ! i) (x2 ! bi ! i))
                 = replicate d_model NaN"
      using l3 row[OF sg bi i] row[OF sx2 bi i] dm by (intro residual_row_nan[where c = 0])
    then show ?thesis using v3 bi i by simp
  qed
  show ?thesis using fw sx3 nan by blast
qed

lemma run_decoders_keep_nan:
  assumes "list_all (wf_decoder h d_model d_ff) ds" and "is_tensor3 b n d_model x"
    and "is_tensor3 b n' d_model e"
    and "0 < n" and "0 < n'" and "0 < d_model" and "0 < d_ff"
  shows "\<exists>out. run_decoders ds x e = Inr out \<and> is_tensor3 b n d_model out \<and>
           (\<forall>bi<b. \<forall>i<n. x ! bi ! i = replicate d_model NaN \<longrightarrow>
              out ! bi ! i = replicate d_model NaN)"
  using assms
proof (induction ds arbitrary: x)
  case Nil
  then show ?case by simp
next
  case (Cons d ds)
  obtain x1 where x1: "Decoder_forward d x e = Inr x1" and s1: "is_tensor3 b n d_model x1"
    and k1: "\<forall>bi<b. \<forall>i<n. i + 2 \<le> d_model div h \<or> x ! bi ! i = replicate d_model NaN \<longrightarrow>
              x1 ! bi ! i = replicate d_model NaN"
    using Decoder_forward_nan[of h d_model d_ff d b n x n' e] Cons.prems by auto
  obtain out where "run_decoders ds x1 e = Inr out" and "is_tensor3 b n d_model out"
    and "\<forall>bi<b. \<forall>i<n. x1 ! bi ! i = replicate d_model NaN \<longrightarrow>
              out ! bi ! i = replicate d_model NaN"
    using Cons.IH[of x1] Cons.prems s1 by auto
  then show ?case using x1 k1 by (auto simp: ebind_def)
qed

lemma run_decoders_nan:
  assumes ds: "list_all (wf_decoder h d_model d_ff) ds" and ne: "ds \<noteq> []"
    and x: "is_tensor3 b n d_model x" and e: "is_tensor3 b n' d_model e"
    and n: "0 < n" and n': "0 < n'" and dm: "0 < d_model" and df: "0 < d_ff"
  shows "\<exists>out. run_decoders ds x e = Inr out \<and> is_tensor3 b n d_model out \<and>
           (\<forall>bi<b. \<forall>i<n. i + 2 \<le> d_model div h \<longrightarrow> out ! bi ! i = replicate d_model NaN)"
proof -
  obtain d rest where dr: "ds = d # rest" using ne by (cases ds) auto
  have wd: "wf_decoder h d_model d_ff d" and wr: "list_all (wf_decoder h d_model d_ff) rest"
    using ds dr by simp_all
  obtain x1 where x1: "Decoder_forward d x e = Inr x1" and s1: "is_tensor3 b n d_model x1"
    and k1: "\<forall>bi<b. \<forall>i<n. i + 2 \<le> d_model div h \<or> x ! bi ! i = replicate d_model NaN \<longrightarrow>
              x1 ! bi ! i = replicate d_model NaN"
    using Decoder_forward_nan[OF wd x e n n' dm df] by blast
  obtain out where "run_decoders rest x1 e = Inr out" and "is_tensor3 b n d_model out"
    and "\<forall>bi<b. \<forall>i<n. x1 ! bi ! i = replicate d_model NaN \<longrightarrow>
              out ! bi ! i = replicate d_model NaN"
    using run_decoders_keep_nan[OF wr s1 e n n' dm df] by blast
  then show ?thesis using x1 k1 by (auto simp: dr ebind_def)
qed

section \<open>The Transformer: shape and NaN rows\<close>

lemma Embedding_forward_Inr:
  assumes E: "is_mat n_token d E" and idx: "is_indices n_token b n idx"
  shows "Embedding_forward E idx = Inr (map (map (\<lambda>t. E ! nat t)) idx) \<and>
         is_tensor3 b n d (map (map (\<lambda>t. E ! nat t)) idx)"
proof -
  have lE: "length E = n_token" using E by (rule is_mat_length)
  have sh: "is_mat b n idx"
    and rng: "\<And>r t. r \<in> set idx \<Longrightarrow> t \<in> set r \<Longrightarrow> 0 \<le> t \<and> t < int n_token"
    using idx by (auto simp: is_indices_def list_all_iff)
  have "Embedding_forward E idx = Inr (map (map (\<lambda>t. E ! nat t)) idx)"
    unfolding Embedding_forward_def
    by (intro emap_Inr_map) (use rng lE in auto)
  moreover have "is_tensor3 b n d (map (map (\<lambda>t. E ! nat t)) idx)"
  proof (rule is_tensor3I)
    show "length (map (map (\<lambda>t. E ! nat t)) idx) = b" using sh by (simp add: is_mat_length)
  next
    fix i assume i: "i < b"
    then have r: "idx ! i \<in> set idx" using sh by (simp add: is_mat_length)
    have "length (E ! nat t) = d" if "t \<in> set (idx ! i)" for t
      using rng[OF r that] E by (intro is_mat_row[OF E]) auto
    then have "is_mat n d (map (\<lambda>t. E ! nat t) (idx ! i))"
      using is_mat_row[OF sh i] by (simp add: is_mat_def list_all_iff)
    then show "is_mat n d (map (map (\<lambda>t. E ! nat t)) idx ! i)"
      using i sh by (simp add: is_mat_length)
  qed
  ultimately show ?thesis by simp
qed

lemma is_tensor3_mul_scalar: "is_tensor3 b n d X \<Longrightarrow> is_tensor3 b n d (mul_scalar X c)"
  unfolding mul_scalar_def
  by (erule is_tensor3_map) (erule is_mat_map_rows, simp)

lemma add_tm_Inr:
  assumes "is_tensor3 b n d X" and "is_mat n d P"
  shows "add_tm X P = Inr (map (\<lambda>M. map2 (map2 fadd) M P) X) \<and>
         is_tensor3 b n d (map (\<lambda>M. map2 (map2 fadd) M P) X)"
proof -
  have "add_tm X P = Inr (map (\<lambda>M. map2 (map2 fadd) M P) X)"
    unfolding add_tm_def
    by (intro emap_Inr_map add_m_Inr[OF _ assms(2)]) (rule is_tensor3_set[OF assms(1)])
  moreover have "is_tensor3 b n d (map (\<lambda>M. map2 (map2 fadd) M P) X)"
    using assms(1) by (rule is_tensor3_map) (simp add: is_mat_add assms(2))
  ultimately show ?thesis by simp
qed

lemma embed_shape:
  assumes E: "is_mat (tr_n_token t) (tr_d_model t) (tr_embedding t)"
    and idx: "is_indices (tr_n_token t) b n idx"
    and b: "0 < b" and n: "0 < n" and ev: "even (tr_d_model t)"
  shows "\<exists>out. embed t idx = Inr out \<and> is_tensor3 b n (tr_d_model t) out"
proof -
  define e where "e = map (map (\<lambda>k. tr_embedding t ! nat k)) idx"
  have e: "Embedding_forward (tr_embedding t) idx = Inr e" and se: "is_tensor3 b n (tr_d_model t) e"
    using Embedding_forward_Inr[OF E idx] by (simp_all add: e_def)
  define x1 where "x1 = mul_scalar e (Fin (sqrt (real (tr_d_model t))))"
  have sx1: "is_tensor3 b n (tr_d_model t) x1"
    unfolding x1_def using se by (rule is_tensor3_mul_scalar)
  have pe: "PositionalEncoding_forward (tr_d_model t) x1 = Inr (spec_positional_encoding n (tr_d_model t))"
    using sx1 b n ev by (rule pe_even)
  note a = add_tm_Inr[OF sx1 is_mat_spec_positional_encoding]
  show ?thesis
    using e pe a by (simp add: embed_def ebind_def x1_def Let_def)
qed

text \<open>
  C2 does not hold of the code. For every well-formed model with at least one layer, a
  head width \<open>d_key = d_model / n_head\<close> of at least 2 and an even \<open>d_model\<close>, and for every
  pair of index tensors of shapes (b, n_src) and (b, n_tgt) with indices in range, the
  forward pass succeeds and its output has the claimed shape (b, n_tgt, n_token). But at
  every target position \<open>i\<close> with \<open>i + 2 \<le> d_key\<close> every entry along the vocabulary axis
  is NaN, whatever the weights: the mask of the first decoder layer multiplies feature
  column \<open>i + 1\<close> of every head by minus infinity, the normalisation that follows turns the
  position into NaN, and nothing after it recovers. Such a row is not a probability
  distribution. With d_model = 512 and 8 heads (d_key = 64) and 3 target positions, as in
  the claim, that is every row of the output.
\<close>

theorem transformer_forward_nan:
  assumes wf: "wf_transformer t" and layers: "0 < tr_n_layer t"
    and dk: "2 \<le> tr_d_model t div tr_n_head t" and ev: "even (tr_d_model t)"
    and df: "0 < tr_d_ff t" and nt: "0 < tr_n_token t"
    and x: "is_indices (tr_n_token t) b n_src x" and y: "is_indices (tr_n_token t) b n_tgt y"
    and b: "0 < b" and ns: "0 < n_src" and ng: "0 < n_tgt"
  shows "\<exists>out. Transformer_forward t x y = Inr out \<and> is_tensor3 b n_tgt (tr_n_token t) out \<and>
           (\<forall>bi<b. \<forall>i<n_tgt. i + 2 \<le> tr_d_model t div tr_n_head t \<longrightarrow>
              out ! bi ! i = replicate (tr_n_token t) NaN)"
proof -
  let ?d = "tr_d_model t" and ?v = "tr_n_token t"
  have es: "list_all (wf_encoder (tr_n_head t) ?d (tr_d_ff t)) (tr_encoders t)"
    and ds: "list_all (wf_decoder (tr_n_head t) ?d (tr_d_ff t)) (tr_decoders t)"
    and ld: "length (tr_decoders t) = tr_n_layer t"
    and E: "is_mat ?v ?d (tr_embedding t)"
    using wf by (simp_all add: wf_transformer_def)
  have dm: "0 < ?d" using dk by (cases "?d = 0") simp_all
  have ne: "tr_decoders t \<noteq> []" using ld layers by auto
  obtain x' where x': "embed t x = Inr x'" and sx: "is_tensor3 b n_src ?d x'"
    using embed_shape[OF E x b ns ev] by blast
  obtain y' where y': "embed t y = Inr y'" and sy: "is_tensor3 b n_tgt ?d y'"
    using embed_shape[OF E y b ng ev] by blast
  obtain eo where eo: "run_encoders (tr_encoders t) x' = Inr eo" and seo: "is_tensor3 b n_src ?d eo"
    using run_encoders_shape[OF es sx ns dm df] by blast
  obtain dec where dec: "run_decoders (tr_decoders t) y' eo = Inr dec"
    and sdec: "is_tensor3 b n_tgt ?d dec"
    and nan: "\<forall>bi<b. \<forall>i<n_tgt. i + 2 \<le> ?d div tr_n_head t \<longrightarrow> dec ! bi ! i = replicate ?d NaN"
    using run_decoders_nan[OF ds ne sy seo ng ns dm df] by blast
  have ET: "is_mat ?d ?v (pre_softmax_weight t)"
    unfolding pre_softmax_weight_def using E nt by (rule is_mat_transpose_m)
  define scores where "scores = map (\<lambda>M. mm M (pre_softmax_weight t)) dec"
  have sc: "matmul_bw dec (pre_softmax_weight t) = Inr scores"
    unfolding scores_def using sdec ET by (rule matmul_bw_Inr)
  have ssc: "is_tensor3 b n_tgt ?v scores"
    unfolding scores_def using sdec ET dm by (rule is_tensor3_matmul_bw)
  have fw: "Transformer_forward t x y = Inr (softmax scores)"
    using x' y' eo dec sc by (simp add: Transformer_forward_def ebind_def)
  have so: "is_tensor3 b n_tgt ?v (softmax scores)" using ssc by (rule is_tensor3_softmax)
  have "softmax scores ! bi ! i = replicate ?v NaN"
    if bi: "bi < b" and i: "i < n_tgt" and ik: "i + 2 \<le> ?d div tr_n_head t" for bi i
  proof -
    have row: "dec ! bi ! i = replicate ?d NaN" using nan bi i ik by simp
    have db: "is_mat n_tgt ?d (dec ! bi)" using sdec bi by (rule is_tensor3_nth)
    have sb: "is_mat n_tgt ?v (scores ! bi)" using ssc bi by (rule is_tensor3_nth)
    have "scores ! bi ! i = replicate ?v NaN"
    proof (rule nth_equalityI)
      show "length (scores ! bi ! i) = length (replicate ?v NaN)"
        using sb i by (simp add: is_mat_row)
    next
      fix j assume "j < length (scores ! bi ! i)"
      then have j: "j < ?v" using sb i by (simp add: is_mat_row)
      have "scores ! bi ! i ! j = dot (dec ! bi ! i) (column (pre_softmax_weight t) j)"
        unfolding scores_def using sdec bi db ET dm i j by (simp add: is_tensor3_length nth_mm)
      also have "\<dots> = NaN"
        unfolding row using dm ET by (intro dot_nan_row) (simp_all add: column_def is_mat_length)
      finally show "scores ! bi ! i ! j = replicate ?v NaN ! j" using j by simp
    qed
    moreover have "softmax scores ! bi ! i = softmax_v (scores ! bi ! i)"
      using ssc bi sb i by (simp add: softmax_def is_tensor3_length is_mat_length)
    ultimately show ?thesis using nt by (simp add: softmax_v_nan)
  qed
  then show ?thesis using fw so by blast
qed

lemma wf_example_transformer: "wf_transformer example_transformer"
  by (simp add: wf_transformer_def example_transformer_def wf_encoder_def wf_decoder_def
      example_multi_head_attention_def example_attention_def wf_multi_head_attention_def
      wf_attention_def example_feed_forward_def wf_feed_forward_network_def wf_linear_def
      example_layer_norm_def wf_layer_norm_def is_mat_def)

lemma singleton_tensor3:
  assumes "is_tensor3 1 1 d X" and "X ! 0 ! 0 = r"
  shows "X = [[r]]"
proof -
  obtain M where X: "X = [M]" using assms(1) by (cases X) (auto simp: is_tensor3_def)
  then have "is_mat 1 d M" using assms(1) by (simp add: is_tensor3_def)
  then obtain r' where "M = [r']" by (cases M) (auto simp: is_mat_def)
  then show ?thesis using X assms(2) by simp
qed

theorem transformer_forward_nan_witness:
  "Transformer_forward example_transformer [[0]] [[1]] = Inr [[[NaN, NaN]]]"
proof -
  have x: "is_indices (tr_n_token example_transformer) 1 1 [[0]]"
    and y: "is_indices (tr_n_token example_transformer) 1 1 [[1]]"
    by (simp_all add: is_indices_def is_mat_def example_transformer_def)
  have h: "0 < tr_n_layer example_transformer"
    "2 \<le> tr_d_model example_transformer div tr_n_head example_transformer"
    "even (tr_d_model example_transformer)" "0 < tr_d_ff example_transformer"
    "0 < tr_n_token example_transformer"
    by (simp_all add: example_transformer_def)
  have one: "0 < (1::nat)" by simp
  obtain out where fw: "Transformer_forward example_transformer [[0]] [[1]] = Inr out"
    and sh: "is_tensor3 1 1 (tr_n_token example_transformer) out"
    and nan: "\<forall>bi<1. \<forall>i<1. i + 2 \<le> tr_d_model example_transformer div tr_n_head example_transformer \<longrightarrow>
              out ! bi ! i = replicate (tr_n_token example_transformer) NaN"
    using transformer_forward_nan[OF wf_example_transformer h x y one one one] by blast
  have "out ! 0 ! 0 = [NaN, NaN]"
    using nan by (simp add: example_transformer_def numeral_2_eq_2)
  then have "out = [[[NaN, NaN]]]" using sh by (intro singleton_tensor3)
  then show ?thesis using fw by simp
qed

end
